theory Spec2Isabelle
  imports Complex_Main "HOL-Library.Word" "HOL-Library.Sublist"
begin

section \<open>PCM conversion in the capture callback\<close>

text \<open>
  An element of the \<^verbatim>\<open>Float32Array\<close> handed to \<^verbatim>\<open>onaudioprocess\<close> is a finite
  binary fraction, an infinity or NaN. A finite float32 has a 24-bit significand, so its
  products with \<^verbatim>\<open>0x8000\<close> and \<^verbatim>\<open>0x7FFF\<close> are exact in double precision: the finite
  case is computed over the reals without rounding.
\<close>

datatype float = Finite real | PlusInfinity | MinusInfinity | NaN

text \<open>\<^verbatim>\<open>Math.min\<close> and \<^verbatim>\<open>Math.max\<close>: NaN if either argument is NaN.\<close>

fun Math_min :: "float \<Rightarrow> float \<Rightarrow> float" where
  "Math_min NaN b = NaN"
| "Math_min a NaN = NaN"
| "Math_min MinusInfinity b = MinusInfinity"
| "Math_min a MinusInfinity = MinusInfinity"
| "Math_min PlusInfinity b = b"
| "Math_min a PlusInfinity = a"
| "Math_min (Finite a) (Finite b) = Finite (min a b)"

fun Math_max :: "float \<Rightarrow> float \<Rightarrow> float" where
  "Math_max NaN b = NaN"
| "Math_max a NaN = NaN"
| "Math_max PlusInfinity b = PlusInfinity"
| "Math_max a PlusInfinity = PlusInfinity"
| "Math_max MinusInfinity b = b"
| "Math_max a MinusInfinity = a"
| "Math_max (Finite a) (Finite b) = Finite (max a b)"

text \<open>\<^verbatim>\<open>s < 0\<close>: false for NaN.\<close>

fun less_zero :: "float \<Rightarrow> bool" where
  "less_zero (Finite a) = (a < 0)"
| "less_zero MinusInfinity = True"
| "less_zero PlusInfinity = False"
| "less_zero NaN = False"

text \<open>\<^verbatim>\<open>s * k\<close> for a positive finite constant \<open>k\<close>.\<close>

fun times_const :: "float \<Rightarrow> real \<Rightarrow> float" where
  "times_const (Finite a) k = Finite (a * k)"
| "times_const PlusInfinity k = PlusInfinity"
| "times_const MinusInfinity k = MinusInfinity"
| "times_const NaN k = NaN"

text \<open>Rounding toward zero, the first step of storing a number into a typed integer array.\<close>

definition trunc :: "real \<Rightarrow> int" where
  "trunc r = (if 0 \<le> r then \<lfloor>r\<rfloor> else \<lceil>r\<rceil>)"

text \<open>
  Storing into an \<^verbatim>\<open>Int16Array\<close> element (ToInt16): NaN and the infinities become 0,
  a finite number is truncated and reduced modulo \<open>2^16\<close>.
\<close>

fun ToInt16 :: "float \<Rightarrow> 16 word" where
  "ToInt16 (Finite r) = word_of_int (trunc r)"
| "ToInt16 PlusInfinity = 0"
| "ToInt16 MinusInfinity = 0"
| "ToInt16 NaN = 0"

text \<open>
  The loop body of the callback:
  \<^verbatim>\<open>const s = Math.max(-1, Math.min(1, inputData[i]));
  pcm16[i] = s < 0 ? s * 0x8000 : s * 0x7FFF;\<close>
\<close>

definition clamp_sample :: "float \<Rightarrow> float" where
  "clamp_sample x = Math_max (Finite (- 1)) (Math_min (Finite 1) x)"

definition scale_sample :: "float \<Rightarrow> float" where
  "scale_sample s = (if less_zero s then times_const s 32768 else times_const s 32767)"

definition pcm16_sample :: "float \<Rightarrow> 16 word" where
  "pcm16_sample x = ToInt16 (scale_sample (clamp_sample x))"

text \<open>The \<^verbatim>\<open>for\<close> loop over the buffer fills one output element per input element.\<close>

definition pcm16_of :: "float list \<Rightarrow> 16 word list" where
  "pcm16_of inputData = map pcm16_sample inputData"

section \<open>Values crossing the component boundary\<close>

text \<open>
  A thrown or rejected value, as far as the handlers look at it:
  \<^verbatim>\<open>error.name\<close> and \<^verbatim>\<open>error.message\<close>.
\<close>

datatype exn = Exn (exn_name: string) (exn_message: string)

text \<open>
  A handler either returns, or throws with the state as it is at the throw
  (assignments made before a throw stay made).
\<close>

datatype 'a completion = Normal 'a | Throws exn 'a

fun state_of :: "'a completion \<Rightarrow> 'a" where
  "state_of (Normal s) = s"
| "state_of (Throws e s) = s"

fun returns :: "'a completion \<Rightarrow> bool" where
  "returns (Normal s) = True"
| "returns (Throws e s) = False"

text \<open>A parsed JSON value; an object is its list of members.\<close>

datatype json =
    JNull
  | JBool bool
  | JNumber real
  | JString string
  | JArray "json list"
  | JObject "(string \<times> json) list"

text \<open>
  \<^verbatim>\<open>event.data\<close> as \<^verbatim>\<open>JSON.parse\<close> sees it: the parse throws a SyntaxError, or yields
  a value.
\<close>

datatype inbound = Unparseable | Parsed json

text \<open>
  Reading a property (\<^verbatim>\<open>message.type\<close>, \<^verbatim>\<open>message.text\<close>, ...): a TypeError on
  \<^verbatim>\<open>null\<close>, the member of an object, and \<^verbatim>\<open>undefined\<close> (\<open>None\<close>) where the member is
  missing or the value is a number, a boolean, a string or an array (none of which has
  one of the properties the handler reads).
\<close>

fun get_prop :: "json \<Rightarrow> string \<Rightarrow> exn + json option" where
  "get_prop JNull k = Inl (Exn ''TypeError'' ''Cannot read properties of null'')"
| "get_prop (JObject kv) k = Inr (map_of kv k)"
| "get_prop v k = Inr None"

text \<open>A JavaScript string is falsy exactly when it is empty: \<^verbatim>\<open>a || b\<close>.\<close>

definition or_else :: "string \<Rightarrow> string \<Rightarrow> string" where
  "or_else a b = (if a = [] then b else a)"

text \<open>
  \<^verbatim>\<open>userName.trim()\<close> is truthy when some character is not white space
  (characters are code units below 256).
\<close>

definition js_whitespace :: "char \<Rightarrow> bool" where
  "js_whitespace c = (of_char c \<in> {9, 10, 11, 12, 13, 32, 160 :: nat})"

definition trim_truthy :: "string \<Rightarrow> bool" where
  "trim_truthy v = (filter (\<lambda>c. \<not> js_whitespace c) v \<noteq> [])"

section \<open>The component's data\<close>

datatype AppState = nameEntry | contextMenu | editingContext | recording

datatype ContextField = F_eventDetails | F_goals | F_participants | F_tone

text \<open>
  The fields of a suggestion and of a transcript entry hold whatever the message held:
  TypeScript's interface is not checked at run time.
\<close>

record Suggestion =
  sug_text :: "json option"
  sug_type :: string
  sug_priority :: string
  sug_timestamp :: "json option"

record TranscriptEntry =
  speaker :: "json option"
  entry_text :: "json option"
  entry_timestamp :: "json option"

record SessionSummary =
  stars :: "string list"
  wish :: string
  filler_percentage :: real
  takeaways :: "string list"
  summary_bullets :: "string list"

text \<open>The body of the session-creation request.\<close>

record create_body =
  body_context :: string
  body_goal :: string
  body_user_name :: string
  body_participants :: string
  body_tone :: string

section \<open>Platform objects\<close>

datatype readyState = CONNECTING | OPEN | CLOSING | CLOSED

text \<open>
  What one \<^verbatim>\<open>send\<close> hands to the socket: the buffer of an \<^verbatim>\<open>Int16Array\<close>, or the text
  \<^verbatim>\<open>JSON.stringify\<close> makes of a value.
\<close>

datatype frame = Binary "16 word list" | TextJson json

definition stop_message :: frame where
  "stop_message = TextJson (JObject [(''type'', JString ''stop'')])"

text \<open>A WebSocket: the session id in its address, its state, and the frames sent on it, oldest first.\<close>

record websocket =
  ws_session :: string
  readyState :: readyState
  sent :: "frame list"

text \<open>
  An AudioContext: what \<^verbatim>\<open>.state\<close> reports, and the calls of \<^verbatim>\<open>suspend()\<close>,
  \<^verbatim>\<open>resume()\<close> and \<^verbatim>\<open>close()\<close> made on it and not yet carried out, oldest first. A call
  returns a promise at once; the state changes when the platform carries the call out.
\<close>

datatype contextState = running | suspended | closed

datatype context_call = DoSuspend | DoResume | DoClose

record audio_context =
  ctx_state :: contextState
  requested :: "context_call list"

fun carry_out :: "context_call \<Rightarrow> contextState \<Rightarrow> contextState" where
  "carry_out DoClose st = closed"
| "carry_out DoSuspend st = (if st = closed then closed else suspended)"
| "carry_out DoResume st = (if st = closed then closed else running)"

text \<open>
  A ScriptProcessorNode with the \<^verbatim>\<open>onaudioprocess\<close> closure installed on it: its input
  from the stream's source node (\<^verbatim>\<open>source.connect(processor)\<close>, never undone), its
  output to the destination (undone by \<^verbatim>\<open>processor.disconnect()\<close>), its context, and what
  the closure holds: the \<^verbatim>\<open>ws\<close> of the call that made it and that render's \<^verbatim>\<open>isPaused\<close>.
\<close>

record processor =
  input_connected :: bool
  connected :: bool
  node_context :: nat
  closure_ws :: nat
  closure_isPaused :: bool

text \<open>Every call that reaches outside the component, in the order made.\<close>

datatype request = CreateSession create_body | FinishSession string

datatype effect =
    ConsoleLog string
  | ConsoleError string
  | Toast string string
  | Fetch request
  | GetUserMedia
  | NewWebSocket nat
  | NewAudioContext nat
  | Disconnect nat
  | ContextClose nat
  | ContextSuspend nat
  | ContextResume nat
  | TracksStop nat
  | Send nat frame
  | Close nat
  | PlayAudio "json option"

text \<open>
  Where a call of \<^verbatim>\<open>handleStartRecording\<close> is suspended, with what its closure holds:
  waiting for the creation request (with the \<^verbatim>\<open>isPaused\<close> of the render it was called
  in), or for the microphone (with that and the session id it got).
\<close>

datatype start_stage = NoCall | AwaitCreate bool | AwaitMic bool string

text \<open>
  Where \<^verbatim>\<open>handleEndSession\<close> is suspended, if it is: waiting for the \<^verbatim>\<open>close()\<close> of the
  context it called it on, or for the summary request.
\<close>

datatype pending = NoPending | AwaitContextClose nat | AwaitSummary

text \<open>
  The component: its React state, its refs, the platform objects it has created, and
  its suspended calls. Objects are named by the number \<open>next_id\<close> gave them; a ref holds
  such a number or \<^verbatim>\<open>null\<close>. A number not yet given names no object: there the socket
  table holds a closed socket, the context table a closed context, the processor table
  a node with no connection and the stream table a stopped stream. Calls of
  \<^verbatim>\<open>handleStartRecording\<close> are numbered by \<open>next_call\<close>; any number of them can be
  suspended at a time. State that only drives what is drawn (the tip and the progress
  of the loading dialog, the animation) is left out.
\<close>

record home =
  appState :: AppState
  editingField :: "ContextField option"
  userName :: string
  eventDetails :: string
  goals :: string
  participants :: string
  tone :: string
  isRecording :: bool
  isPaused :: bool
  transcriptEntries :: "TranscriptEntry list"
  suggestions :: "Suggestion list"
  isEndingSession :: bool
  showFeedback :: bool
  sessionSummary :: "SessionSummary option"
  isLoadingSession :: bool
  sessionIdRef :: "string option"
  wsRef :: "nat option"
  audioContextRef :: "nat option"
  audioProcessorRef :: "nat option"
  audioStreamRef :: "nat option"
  sockets :: "nat \<Rightarrow> websocket"
  contexts :: "nat \<Rightarrow> audio_context"
  processors :: "nat \<Rightarrow> processor"
  streams :: "nat \<Rightarrow> bool"
  next_id :: nat
  effects :: "effect list"
  calls :: "nat \<Rightarrow> start_stage"
  next_call :: nat
  pending :: pending

definition no_socket :: websocket where
  "no_socket = \<lparr>ws_session = [], readyState = CLOSED, sent = []\<rparr>"

definition no_context :: audio_context where
  "no_context = \<lparr>ctx_state = closed, requested = []\<rparr>"

definition no_processor :: processor where
  "no_processor = \<lparr>input_connected = False, connected = False, node_context = 0, closure_ws = 0,
                    closure_isPaused = False\<rparr>"

text \<open>The component as first rendered, nothing saved.\<close>

definition initial :: home where
  "initial = \<lparr>appState = nameEntry, editingField = None, userName = [], eventDetails = [],
     goals = [], participants = [], tone = [], isRecording = False, isPaused = False,
     transcriptEntries = [], suggestions = [], isEndingSession = False, showFeedback = False,
     sessionSummary = None, isLoadingSession = False, sessionIdRef = None, wsRef = None,
     audioContextRef = None, audioProcessorRef = None, audioStreamRef = None,
     sockets = (\<lambda>i. no_socket), contexts = (\<lambda>i. no_context), processors = (\<lambda>i. no_processor),
     streams = (\<lambda>i. False), next_id = 0, effects = [], calls = (\<lambda>k. NoCall), next_call = 0,
     pending = NoPending\<rparr>"

definition emit :: "effect \<Rightarrow> home \<Rightarrow> home" where
  "emit e s = s\<lparr>effects := effects s @ [e]\<rparr>"

section \<open>Platform operations\<close>

text \<open>
  \<^verbatim>\<open>ws.send(data)\<close>: throws an InvalidStateError while the socket is connecting, puts
  the frame on the wire while it is open, and discards it once the socket is closing or
  closed.
\<close>

definition ws_send :: "nat \<Rightarrow> frame \<Rightarrow> home \<Rightarrow> home completion" where
  "ws_send w f s =
     (let s1 = emit (Send w f) s in
      case readyState (sockets s1 w) of
        CONNECTING \<Rightarrow> Throws (Exn ''InvalidStateError'' ''Still in CONNECTING state'') s1
      | OPEN \<Rightarrow> Normal (s1\<lparr>sockets := (sockets s1)(w := (sockets s1 w)\<lparr>sent := sent (sockets s1 w) @ [f]\<rparr>)\<rparr>)
      | CLOSING \<Rightarrow> Normal s1
      | CLOSED \<Rightarrow> Normal s1)"

text \<open>\<^verbatim>\<open>ws.close()\<close>: starts the closing handshake unless the socket is already closing or closed.\<close>

definition ws_close :: "nat \<Rightarrow> home \<Rightarrow> home" where
  "ws_close w s =
     (let s1 = emit (Close w) s in
      case readyState (sockets s1 w) of
        CONNECTING \<Rightarrow> s1\<lparr>sockets := (sockets s1)(w := (sockets s1 w)\<lparr>readyState := CLOSING\<rparr>)\<rparr>
      | OPEN \<Rightarrow> s1\<lparr>sockets := (sockets s1)(w := (sockets s1 w)\<lparr>readyState := CLOSING\<rparr>)\<rparr>
      | CLOSING \<Rightarrow> s1
      | CLOSED \<Rightarrow> s1)"

text \<open>\<^verbatim>\<open>processor.disconnect()\<close> and \<^verbatim>\<open>track.stop()\<close> on every track of a stream.\<close>

definition node_disconnect :: "nat \<Rightarrow> home \<Rightarrow> home" where
  "node_disconnect p s =
     (emit (Disconnect p) s)\<lparr>processors := (processors s)(p := (processors s p)\<lparr>connected := False\<rparr>)\<rparr>"

definition tracks_stop :: "nat \<Rightarrow> home \<Rightarrow> home" where
  "tracks_stop m s = (emit (TracksStop m) s)\<lparr>streams := (streams s)(m := False)\<rparr>"

text \<open>
  A call on an audio context joins the calls waiting to be carried out. On a closed
  context the returned promise is rejected and nothing is left waiting: for
  \<^verbatim>\<open>suspend()\<close> and \<^verbatim>\<open>resume()\<close>, whose promises the component drops, that is all; the
  promise of \<^verbatim>\<open>close()\<close> is awaited, so there the rejection is thrown.
\<close>

definition enqueue :: "context_call \<Rightarrow> nat \<Rightarrow> home \<Rightarrow> home" where
  "enqueue r c s =
     (if ctx_state (contexts s c) = closed then s
      else s\<lparr>contexts := (contexts s)(c := (contexts s c)\<lparr>requested := requested (contexts s c) @ [r]\<rparr>)\<rparr>)"

definition context_suspend :: "nat \<Rightarrow> home \<Rightarrow> home" where
  "context_suspend c s = enqueue DoSuspend c (emit (ContextSuspend c) s)"

definition context_resume :: "nat \<Rightarrow> home \<Rightarrow> home" where
  "context_resume c s = enqueue DoResume c (emit (ContextResume c) s)"

definition context_close :: "nat \<Rightarrow> home \<Rightarrow> home completion" where
  "context_close c s =
     (let s1 = emit (ContextClose c) s in
      if ctx_state (contexts s1 c) = closed
      then Throws (Exn ''InvalidStateError'' ''Cannot close a closed AudioContext'') s1
      else Normal (enqueue DoClose c s1))"

section \<open>The channel's message handler\<close>

definition field :: "json \<Rightarrow> string \<Rightarrow> json option" where
  "field m k = (case get_prop m k of Inl e \<Rightarrow> None | Inr v \<Rightarrow> v)"

text \<open>
  \<^verbatim>\<open>ws.onmessage\<close>. The parse comes first and is not guarded. The \<^verbatim>\<open>audio\<close> branch
  decodes and plays inside its own \<^verbatim>\<open>try\<close>: whatever happens there is one playback effect
  and never leaves the branch.
\<close>

definition onmessage :: "inbound \<Rightarrow> home \<Rightarrow> home completion" where
  "onmessage d s =
     (case d of
        Unparseable \<Rightarrow> Throws (Exn ''SyntaxError'' ''Unexpected token'') s
      | Parsed message \<Rightarrow>
          (let s1 = emit (ConsoleLog ''WebSocket message:'') s in
           case get_prop message ''type'' of
             Inl e \<Rightarrow> Throws e s1
           | Inr t \<Rightarrow>
               if t = Some (JString ''suggestion'') then
                 Normal (s1\<lparr>suggestions :=
                   take 3 (\<lparr>sug_text = field message ''text'', sug_type = ''tip'',
                            sug_priority = ''high'', sug_timestamp = field message ''timestamp''\<rparr>
                           # suggestions s1)\<rparr>)
               else if t = Some (JString ''transcript'') then
                 Normal (s1\<lparr>transcriptEntries :=
                   transcriptEntries s1 @
                     [\<lparr>speaker = field message ''speaker'', entry_text = field message ''text'',
                       entry_timestamp = field message ''timestamp''\<rparr>]\<rparr>)
               else if t = Some (JString ''audio'') then
                 Normal (emit (PlayAudio (field message ''data'')) s1)
               else Normal s1))"

section \<open>The capture callback\<close>

text \<open>
  \<^verbatim>\<open>processor.onaudioprocess\<close>, for the node \<open>p\<close> and one input buffer. \<^verbatim>\<open>ws\<close> and
  \<^verbatim>\<open>isPaused\<close> are the closure's.
\<close>

definition onaudioprocess :: "nat \<Rightarrow> float list \<Rightarrow> home \<Rightarrow> home" where
  "onaudioprocess p inputData s =
     (let ws = closure_ws (processors s p) in
      if readyState (sockets s ws) = OPEN \<and> \<not> closure_isPaused (processors s p)
      then state_of (ws_send ws (Binary (pcm16_of inputData)) s)
      else s)"

section \<open>Starting a session\<close>

text \<open>
  How the awaited calls of \<^verbatim>\<open>handleStartRecording\<close> come out: the creation request
  (\<^verbatim>\<open>fetch\<close>, \<^verbatim>\<open>response.ok\<close>, \<^verbatim>\<open>response.json()\<close>; a body that parses carries the
  session id as a string) and \<^verbatim>\<open>getUserMedia\<close>. The handler writes nothing between
  the await of \<^verbatim>\<open>fetch\<close> and the await of \<^verbatim>\<open>response.json()\<close>, so the two are one
  outcome here. The constructors of the socket, the audio context and its nodes are
  taken to succeed.
\<close>

datatype create_outcome = FetchRejected exn | ResponseNotOk | JsonRejected exn | Created string

datatype mic_outcome = MicRejected exn | MicGranted

definition create_request :: "home \<Rightarrow> create_body" where
  "create_request s =
     \<lparr>body_context = or_else (eventDetails s) ''General conversation'',
      body_goal = or_else (goals s) ''Have a great conversation'',
      body_user_name = userName s,
      body_participants = or_else (participants s) [],
      body_tone = or_else (tone s) []\<rparr>"

text \<open>
  The \<^verbatim>\<open>catch\<close> block: a log, the loading flag, and one toast chosen by \<^verbatim>\<open>error.name\<close>.
  The description of the first toast is abridged here: the source's also says where in
  the browser the permission is set.
\<close>

definition start_catch :: "exn \<Rightarrow> home \<Rightarrow> home" where
  "start_catch e s =
     (let s1 = (emit (ConsoleError ''Microphone permission error:'') s)\<lparr>isLoadingSession := False\<rparr> in
      if exn_name e = ''NotAllowedError'' \<or> exn_name e = ''PermissionDeniedError'' then
        emit (Toast ''Microphone Access Blocked'' ''Please allow microphone access, then try again.'') s1
      else if exn_name e = ''NotFoundError'' then
        emit (Toast ''No Microphone Found'' ''Please connect a microphone to use this feature.'') s1
      else
        emit (Toast ''Microphone Error''
          (or_else (exn_message e) ''Could not access microphone. Please check your browser settings.'')) s1)"

text \<open>
  From the click to the first await: the loading flag and the creation request, whose
  body is made of the fields as they are now. The call is then suspended, holding the
  \<^verbatim>\<open>isPaused\<close> of the render it was called in.
\<close>

definition start_begin :: "home \<Rightarrow> home" where
  "start_begin s =
     (emit (Fetch (CreateSession (create_request s))) (s\<lparr>isLoadingSession := True\<rparr>))
       \<lparr>calls := (calls s)(next_call s := AwaitCreate (isPaused s)), next_call := next_call s + 1\<rparr>"

text \<open>
  Call \<open>k\<close> when its creation request has come back: a failure goes to the \<^verbatim>\<open>catch\<close>
  block and ends the call; a session id is stored in the ref and the call asks for the
  microphone and is suspended again.
\<close>

definition start_created :: "nat \<Rightarrow> bool \<Rightarrow> create_outcome \<Rightarrow> home \<Rightarrow> home" where
  "start_created k paused cr s =
     (case cr of
        FetchRejected e \<Rightarrow> start_catch e (s\<lparr>calls := (calls s)(k := NoCall)\<rparr>)
      | ResponseNotOk \<Rightarrow>
          start_catch (Exn ''Error'' ''Failed to create session'') (s\<lparr>calls := (calls s)(k := NoCall)\<rparr>)
      | JsonRejected e \<Rightarrow> start_catch e (s\<lparr>calls := (calls s)(k := NoCall)\<rparr>)
      | Created sid \<Rightarrow>
          (emit GetUserMedia (emit (ConsoleLog ''Session created:'') (s\<lparr>sessionIdRef := Some sid\<rparr>)))
            \<lparr>calls := (calls s)(k := AwaitMic paused sid)\<rparr>)"

text \<open>
  The rest of the \<^verbatim>\<open>try\<close> block once the stream is there: \<open>m\<close>, \<open>w\<close>, \<open>c\<close> and \<open>p\<close> are
  the new stream, socket, audio context and processor; \<open>sid\<close> and \<open>paused\<close> are the
  session id and the \<^verbatim>\<open>isPaused\<close> the call holds.
\<close>

definition start_session :: "string \<Rightarrow> bool \<Rightarrow> home \<Rightarrow> home" where
  "start_session sid paused s =
     (let m = next_id s; w = m + 1; c = m + 2; p = m + 3;
          s1 = s\<lparr>streams := (streams s)(m := True), audioStreamRef := Some m\<rparr>;
          s2 = s1\<lparr>appState := recording, isRecording := True, isPaused := False,
                  isLoadingSession := False\<rparr>;
          s3 = (emit (NewWebSocket w) s2)
                 \<lparr>sockets := (sockets s2)(w := \<lparr>ws_session = sid, readyState = CONNECTING, sent = []\<rparr>),
                  wsRef := Some w\<rparr>;
          s4 = (emit (NewAudioContext c) s3)
                 \<lparr>contexts := (contexts s3)(c := \<lparr>ctx_state = running, requested = []\<rparr>),
                  audioContextRef := Some c\<rparr>
      in s4\<lparr>processors := (processors s4)(p :=
              \<lparr>input_connected = True, connected = True, node_context = c, closure_ws = w,
               closure_isPaused = paused\<rparr>),
            audioProcessorRef := Some p, next_id := m + 4\<rparr>)"

text \<open>Call \<open>k\<close> when \<^verbatim>\<open>getUserMedia\<close> has come back: the \<^verbatim>\<open>catch\<close> block, or the rest.\<close>

definition start_granted :: "nat \<Rightarrow> bool \<Rightarrow> string \<Rightarrow> mic_outcome \<Rightarrow> home \<Rightarrow> home" where
  "start_granted k paused sid mic s =
     (case mic of
        MicRejected e \<Rightarrow> start_catch e (s\<lparr>calls := (calls s)(k := NoCall)\<rparr>)
      | MicGranted \<Rightarrow> start_session sid paused (s\<lparr>calls := (calls s)(k := NoCall)\<rparr>))"

text \<open>\<^verbatim>\<open>handleStartRecording\<close> run through without anything happening in between.\<close>

definition handleStartRecording :: "create_outcome \<Rightarrow> mic_outcome \<Rightarrow> home \<Rightarrow> home" where
  "handleStartRecording cr mic s =
     (let k = next_call s; s1 = start_created k (isPaused s) cr (start_begin s) in
      case cr of
        Created sid \<Rightarrow> start_granted k (isPaused s) sid mic s1
      | _ \<Rightarrow> s1)"

section \<open>Pausing and resuming\<close>

definition handleTogglePause :: "home \<Rightarrow> home" where
  "handleTogglePause s =
     (if isPaused s then
        (let s1 = s\<lparr>isPaused := False\<rparr> in
         case audioContextRef s1 of
           None \<Rightarrow> s1
         | Some c \<Rightarrow> if ctx_state (contexts s1 c) = suspended then context_resume c s1 else s1)
      else
        (let s1 = s\<lparr>isPaused := True\<rparr> in
         case audioContextRef s1 of
           None \<Rightarrow> s1
         | Some c \<Rightarrow> if ctx_state (contexts s1 c) = running then context_suspend c s1 else s1))"

section \<open>Ending a session\<close>

text \<open>
  How the summary request comes out: \<^verbatim>\<open>fetch\<close> rejects, the response is not ok, the
  body does not parse, or the summary arrives. Here too the handler writes nothing
  between its two awaits, and they are one outcome.
\<close>

datatype summary_outcome =
    SummaryFetchRejected exn
  | SummaryNotOk
  | SummaryJsonRejected exn
  | SummaryOk SessionSummary

text \<open>The last four statements of \<^verbatim>\<open>handleEndSession\<close>.\<close>

definition end_clear :: "home \<Rightarrow> home" where
  "end_clear s = s\<lparr>transcriptEntries := [], suggestions := [], sessionIdRef := None,
                   appState := contextMenu\<rparr>"

text \<open>
  The \<^verbatim>\<open>try\<close>/\<^verbatim>\<open>catch\<close>/\<^verbatim>\<open>finally\<close> around the summary request, from the point where
  the request has come back, and the statements after it.
\<close>

definition end_summary :: "summary_outcome \<Rightarrow> home \<Rightarrow> home" where
  "end_summary out s =
     (let failed = (\<lambda>s. emit (Toast ''Error'' ''Failed to get session summary'')
                          (emit (ConsoleError ''Error getting session summary:'') s));
          s1 = (case out of
                  SummaryFetchRejected e \<Rightarrow> failed s
                | SummaryNotOk \<Rightarrow> s
                | SummaryJsonRejected e \<Rightarrow> failed s
                | SummaryOk summary \<Rightarrow>
                    (emit (ConsoleLog ''Session summary:'') s)
                      \<lparr>sessionSummary := Some summary, showFeedback := True\<rparr>)
      in end_clear (s1\<lparr>isEndingSession := False, pending := NoPending\<rparr>))"

text \<open>The three guarded blocks after the audio context: the stream, the socket, the summary.\<close>

definition release_stream :: "home \<Rightarrow> home" where
  "release_stream s =
     (case audioStreamRef s of
        None \<Rightarrow> s
      | Some m \<Rightarrow> (tracks_stop m s)\<lparr>audioStreamRef := None\<rparr>)"

text \<open>
  The stop message and the close are two consecutive statements; a throw of \<^verbatim>\<open>send\<close>
  leaves the block, and the handler, there.
\<close>

definition close_channel :: "home \<Rightarrow> home completion" where
  "close_channel s =
     (case wsRef s of
        None \<Rightarrow> Normal s
      | Some w \<Rightarrow>
          (case ws_send w stop_message s of
             Throws e s1 \<Rightarrow> Throws e s1
           | Normal s1 \<Rightarrow> Normal ((ws_close w s1)\<lparr>wsRef := None\<rparr>)))"

text \<open>
  With a session id the handler sends the summary request and waits for it; without
  one it goes straight to the last statements.
\<close>

definition request_summary :: "home \<Rightarrow> home" where
  "request_summary s =
     (case sessionIdRef s of
        None \<Rightarrow> end_clear (s\<lparr>pending := NoPending\<rparr>)
      | Some sid \<Rightarrow>
          if sid = [] then end_clear (s\<lparr>pending := NoPending\<rparr>)
          else (emit (Fetch (FinishSession sid)) s)\<lparr>pending := AwaitSummary\<rparr>)"

definition end_channel :: "home \<Rightarrow> home completion" where
  "end_channel s =
     (case close_channel (release_stream s) of
        Throws e s1 \<Rightarrow> Throws e (s1\<lparr>pending := NoPending\<rparr>)
      | Normal s1 \<Rightarrow> Normal (request_summary s1))"

text \<open>
  After \<^verbatim>\<open>await audioContextRef.current.close()\<close> has come back: the ref is set to
  \<^verbatim>\<open>null\<close>, whatever it holds by then.
\<close>

definition end_context_closed :: "home \<Rightarrow> home completion" where
  "end_context_closed s = end_channel (s\<lparr>audioContextRef := None\<rparr>)"

definition release_processor :: "home \<Rightarrow> home" where
  "release_processor s =
     (case audioProcessorRef s of
        None \<Rightarrow> s
      | Some p \<Rightarrow> (node_disconnect p s)\<lparr>audioProcessorRef := None\<rparr>)"

text \<open>
  From the click to the first await: the three flags, the processor, the call of
  \<^verbatim>\<open>close()\<close>, whose promise the handler then waits for. Without an audio context there
  is nothing to wait for and the handler runs on.
\<close>

definition end_begin :: "home \<Rightarrow> home completion" where
  "end_begin s =
     (let s2 = release_processor (s\<lparr>isEndingSession := True, isRecording := False, isPaused := False\<rparr>)
      in case audioContextRef s2 of
           None \<Rightarrow> end_channel s2
         | Some c \<Rightarrow>
             (case context_close c s2 of
                Throws e s3 \<Rightarrow> Throws e s3
              | Normal s3 \<Rightarrow> Normal (s3\<lparr>pending := AwaitContextClose c\<rparr>)))"

text \<open>
  The platform carries out the oldest call waiting on context \<open>c\<close>. When that is the
  \<^verbatim>\<open>close()\<close> the end handler waits for, the handler runs on.
\<close>

definition settle :: "nat \<Rightarrow> home \<Rightarrow> home" where
  "settle c s =
     (case requested (contexts s c) of
        [] \<Rightarrow> s
      | r # rs \<Rightarrow>
          (let s1 = s\<lparr>contexts := (contexts s)(c :=
                        \<lparr>ctx_state = carry_out r (ctx_state (contexts s c)), requested = rs\<rparr>)\<rparr>
           in if r = DoClose \<and> pending s1 = AwaitContextClose c
              then state_of (end_context_closed s1) else s1))"

text \<open>
  \<^verbatim>\<open>handleEndSession\<close> run through without anything happening in between: the calls
  waiting on the context are carried out at the first await, the \<^verbatim>\<open>close()\<close> last.
\<close>

definition handleEndSession :: "summary_outcome \<Rightarrow> home \<Rightarrow> home completion" where
  "handleEndSession out s =
     (case end_begin s of
        Throws e s1 \<Rightarrow> Throws e s1
      | Normal s1 \<Rightarrow>
          (case (case pending s1 of
                   AwaitContextClose c \<Rightarrow>
                     end_context_closed
                       (s1\<lparr>contexts := (contexts s1)(c := \<lparr>ctx_state = closed, requested = []\<rparr>)\<rparr>)
                 | _ \<Rightarrow> Normal s1) of
             Throws e s2 \<Rightarrow> Throws e s2
           | Normal s2 \<Rightarrow>
               Normal (if pending s2 = AwaitSummary then end_summary out s2 else s2)))"

section \<open>The context screens\<close>

definition handleConfirmName :: "home \<Rightarrow> home" where
  "handleConfirmName s = (if trim_truthy (userName s) then s\<lparr>appState := contextMenu\<rparr> else s)"

definition handleEditField :: "ContextField \<Rightarrow> home \<Rightarrow> home" where
  "handleEditField f s = s\<lparr>editingField := Some f, appState := editingContext\<rparr>"

definition handleBackToMenu :: "home \<Rightarrow> home" where
  "handleBackToMenu s = s\<lparr>editingField := None, appState := contextMenu\<rparr>"

fun set_field :: "ContextField \<Rightarrow> string \<Rightarrow> home \<Rightarrow> home" where
  "set_field F_eventDetails v s = s\<lparr>eventDetails := v\<rparr>"
| "set_field F_goals v s = s\<lparr>goals := v\<rparr>"
| "set_field F_participants v s = s\<lparr>participants := v\<rparr>"
| "set_field F_tone v s = s\<lparr>tone := v\<rparr>"

section \<open>The component as an event system\<close>

text \<open>
  What can happen to the mounted component: the user's actions, the results the
  suspended calls wait for, and the platform's callbacks. Between any two of them
  anything else can happen: a call of \<^verbatim>\<open>handleStartRecording\<close> waits twice, for the
  creation request and for the microphone, and while it waits the context menu is
  still up, the loading dialog can be dismissed and the start button pressed again.
\<close>

datatype event =
    SetUserName string
  | ConfirmName
  | BackToName
  | EditField ContextField
  | SetField string
  | BackToMenu
  | DismissFeedback
  | DismissLoading
  | StartRecording
  | CreateResolved nat create_outcome
  | MicResolved nat mic_outcome
  | TogglePause
  | EndSession
  | ContextSettled nat
  | SummaryResolved summary_outcome
  | AudioProcess nat "float list"
  | WsOpen nat
  | WsMessage nat inbound
  | WsError nat
  | WsClosed nat

text \<open>
  An event that cannot happen in a state leaves it alone. A control is there when the
  screen that holds it is rendered (\<^verbatim>\<open>appState\<close>, \<^verbatim>\<open>isEndingSession\<close>). The platform
  calls \<^verbatim>\<open>onaudioprocess\<close> on a node with an input or an output connected whose context
  reports \<^verbatim>\<open>running\<close>, which it still does after \<^verbatim>\<open>suspend()\<close> or \<^verbatim>\<open>close()\<close> has been
  called and before the call is carried out; it delivers a message on an open socket,
  opens a connecting socket, and reports an error or the close on a socket that is not
  closed yet.
\<close>

fun step :: "event \<Rightarrow> home \<Rightarrow> home" where
  "step (SetUserName v) s = (if appState s = nameEntry then s\<lparr>userName := v\<rparr> else s)"
| "step ConfirmName s = (if appState s = nameEntry then handleConfirmName s else s)"
| "step BackToName s = (if appState s = contextMenu then s\<lparr>appState := nameEntry\<rparr> else s)"
| "step (EditField f) s = (if appState s = contextMenu then handleEditField f s else s)"
| "step (SetField v) s =
     (if appState s = editingContext
      then (case editingField s of None \<Rightarrow> s | Some f \<Rightarrow> set_field f v s) else s)"
| "step BackToMenu s =
     (if appState s = editingContext \<and> editingField s \<noteq> None then handleBackToMenu s else s)"
| "step DismissFeedback s = s\<lparr>showFeedback := False\<rparr>"
| "step DismissLoading s = s\<lparr>isLoadingSession := False\<rparr>"
| "step StartRecording s = (if appState s = contextMenu then start_begin s else s)"
| "step (CreateResolved k cr) s =
     (case calls s k of AwaitCreate paused \<Rightarrow> start_created k paused cr s | _ \<Rightarrow> s)"
| "step (MicResolved k mic) s =
     (case calls s k of AwaitMic paused sid \<Rightarrow> start_granted k paused sid mic s | _ \<Rightarrow> s)"
| "step TogglePause s =
     (if appState s = recording \<and> \<not> isEndingSession s then handleTogglePause s else s)"
| "step EndSession s =
     (if appState s = recording \<and> \<not> isEndingSession s then state_of (end_begin s) else s)"
| "step (ContextSettled c) s = settle c s"
| "step (SummaryResolved out) s =
     (if pending s = AwaitSummary then end_summary out s else s)"
| "step (AudioProcess p inputData) s =
     (if (input_connected (processors s p) \<or> connected (processors s p)) \<and>
         ctx_state (contexts s (node_context (processors s p))) = running
      then onaudioprocess p inputData s else s)"
| "step (WsOpen w) s =
     (if readyState (sockets s w) = CONNECTING
      then emit (ConsoleLog ''WebSocket connected'')
             (s\<lparr>sockets := (sockets s)(w := (sockets s w)\<lparr>readyState := OPEN\<rparr>)\<rparr>)
      else s)"
| "step (WsMessage w d) s =
     (if readyState (sockets s w) = OPEN then state_of (onmessage d s) else s)"
| "step (WsError w) s =
     (if readyState (sockets s w) \<noteq> CLOSED
      then emit (Toast ''Connection Error''
                   ''Failed to connect to the backend. Please make sure the backend is running.'')
             (emit (ConsoleError ''WebSocket error:'') s)
      else s)"
| "step (WsClosed w) s =
     (if readyState (sockets s w) \<noteq> CLOSED
      then emit (ConsoleLog ''WebSocket closed'')
             (s\<lparr>sockets := (sockets s)(w := (sockets s w)\<lparr>readyState := CLOSED\<rparr>)\<rparr>)
      else s)"

fun run :: "event list \<Rightarrow> home \<Rightarrow> home" where
  "run [] s = s"
| "run (e # es) s = run es (step e s)"

section \<open>Notions used in the statements\<close>

text \<open>A socket is live while it is connecting or open.\<close>

definition live :: "readyState \<Rightarrow> bool" where
  "live r = (r = CONNECTING \<or> r = OPEN)"

text \<open>
  A parsed message is typed by its \<^verbatim>\<open>type\<close> member, compared with \<^verbatim>\<open>===\<close>; the
  suggestion and the transcript entry the handler makes of a message.
\<close>

definition is_type :: "string \<Rightarrow> json \<Rightarrow> bool" where
  "is_type t m = (get_prop m ''type'' = Inr (Some (JString t)))"

definition suggestion_of :: "json \<Rightarrow> Suggestion" where
  "suggestion_of m = \<lparr>sug_text = field m ''text'', sug_type = ''tip'', sug_priority = ''high'',
                       sug_timestamp = field m ''timestamp''\<rparr>"

definition entry_of :: "json \<Rightarrow> TranscriptEntry" where
  "entry_of m = \<lparr>speaker = field m ''speaker'', entry_text = field m ''text'',
                  entry_timestamp = field m ''timestamp''\<rparr>"

text \<open>The handler called on one message after the other; a throw ends that call only.\<close>

fun receive_all :: "inbound list \<Rightarrow> home \<Rightarrow> home" where
  "receive_all [] s = s"
| "receive_all (d # ds) s = receive_all ds (state_of (onmessage d s))"

text \<open>The messages the platform hands to the handler in the course of a run, in order.\<close>

fun received :: "event list \<Rightarrow> home \<Rightarrow> inbound list" where
  "received [] s = []"
| "received (WsMessage w d # es) s =
     (if readyState (sockets s w) = OPEN then d # received es (step (WsMessage w d) s)
      else received es (step (WsMessage w d) s))"
| "received (e # es) s = received es (step e s)"

text \<open>The transcript entries of the messages that parse and are typed \<^verbatim>\<open>transcript\<close>.\<close>

fun entries_of :: "inbound list \<Rightarrow> TranscriptEntry list" where
  "entries_of [] = []"
| "entries_of (Unparseable # ds) = entries_of ds"
| "entries_of (Parsed m # ds) =
     (if is_type ''transcript'' m then entry_of m # entries_of ds else entries_of ds)"

text \<open>The recording screen is up at every point of a run.\<close>

fun stays_recording :: "event list \<Rightarrow> home \<Rightarrow> bool" where
  "stays_recording [] s = (appState s = recording)"
| "stays_recording (e # es) s = (appState s = recording \<and> stays_recording es (step e s))"

text \<open>On one socket: once the stop message is among the frames, no audio frame follows it.\<close>

fun is_audio :: "frame \<Rightarrow> bool" where
  "is_audio (Binary b) = True"
| "is_audio (TextJson v) = False"

fun no_audio_after_stop :: "frame list \<Rightarrow> bool" where
  "no_audio_after_stop [] = True"
| "no_audio_after_stop (f # fs) =
     (if f = stop_message then list_all (\<lambda>g. \<not> is_audio g) fs else no_audio_after_stop fs)"

text \<open>What a step does to the two feeds: it keeps them, or it clears them and leaves the session.\<close>

definition feeds_kept :: "home \<Rightarrow> home \<Rightarrow> bool" where
  "feeds_kept s s' = (transcriptEntries s' = transcriptEntries s \<and> suggestions s' = suggestions s)"

definition feeds_cleared :: "home \<Rightarrow> bool" where
  "feeds_cleared s' = (transcriptEntries s' = [] \<and> suggestions s' = [] \<and>
                       appState s' = contextMenu \<and> sessionIdRef s' = None)"



text \<open>
  What holds of every socket in every state the component can reach: no audio frame
  follows the stop message on it, and once the stop message went out on it, it is no
  longer live.
\<close>

definition wire_ok :: "home \<Rightarrow> bool" where
  "wire_ok s =
     (\<forall>w. no_audio_after_stop (sent (sockets s w)) \<and>
          (stop_message \<in> set (sent (sockets s w)) \<longrightarrow> \<not> live (readyState (sockets s w))))"

section \<open>What the handlers leave alone\<close>

lemma start_catch_fields:
  "next_id (start_catch e s) = next_id s" "sockets (start_catch e s) = sockets s"
  "contexts (start_catch e s) = contexts s" "processors (start_catch e s) = processors s"
  "streams (start_catch e s) = streams s" "wsRef (start_catch e s) = wsRef s"
  "audioProcessorRef (start_catch e s) = audioProcessorRef s"
  "audioContextRef (start_catch e s) = audioContextRef s"
  "audioStreamRef (start_catch e s) = audioStreamRef s"
  "sessionIdRef (start_catch e s) = sessionIdRef s"
  "isPaused (start_catch e s) = isPaused s" "isRecording (start_catch e s) = isRecording s"
  "isEndingSession (start_catch e s) = isEndingSession s" "pending (start_catch e s) = pending s"
  "transcriptEntries (start_catch e s) = transcriptEntries s"
  "suggestions (start_catch e s) = suggestions s" "appState (start_catch e s) = appState s"
  "isLoadingSession (start_catch e s) = False"
  "calls (start_catch e s) = calls s" "next_call (start_catch e s) = next_call s"
  by (simp_all add: start_catch_def emit_def Let_def)

lemma start_session_eq:
  "start_session sid paused s =
     s\<lparr>effects := effects s @ [NewWebSocket (next_id s + 1), NewAudioContext (next_id s + 2)],
       streams := (streams s)(next_id s := True), audioStreamRef := Some (next_id s),
       appState := recording, isRecording := True, isPaused := False, isLoadingSession := False,
       sockets := (sockets s)(next_id s + 1 := \<lparr>ws_session = sid, readyState = CONNECTING, sent = []\<rparr>),
       wsRef := Some (next_id s + 1),
       contexts := (contexts s)(next_id s + 2 := \<lparr>ctx_state = running, requested = []\<rparr>),
       audioContextRef := Some (next_id s + 2),
       processors := (processors s)(next_id s + 3 :=
              \<lparr>input_connected = True, connected = True, node_context = next_id s + 2,
               closure_ws = next_id s + 1, closure_isPaused = paused\<rparr>),
       audioProcessorRef := Some (next_id s + 3), next_id := next_id s + 4\<rparr>"
  by (simp add: start_session_def emit_def Let_def)

lemma onaudioprocess_eq:
  "onaudioprocess p d s =
     (if readyState (sockets s (closure_ws (processors s p))) = OPEN \<and> \<not> closure_isPaused (processors s p)
      then s\<lparr>effects := effects s @ [Send (closure_ws (processors s p)) (Binary (pcm16_of d))],
             sockets := (sockets s)(closure_ws (processors s p) :=
               (sockets s (closure_ws (processors s p)))
                 \<lparr>sent := sent (sockets s (closure_ws (processors s p))) @ [Binary (pcm16_of d)]\<rparr>)\<rparr>
      else s)"
  by (simp add: onaudioprocess_def ws_send_def emit_def Let_def)

lemma onmessage_fields:
  "next_id (state_of (onmessage d s)) = next_id s"
  "sockets (state_of (onmessage d s)) = sockets s"
  "contexts (state_of (onmessage d s)) = contexts s"
  "processors (state_of (onmessage d s)) = processors s"
  "streams (state_of (onmessage d s)) = streams s"
  "wsRef (state_of (onmessage d s)) = wsRef s"
  "audioProcessorRef (state_of (onmessage d s)) = audioProcessorRef s"
  "audioContextRef (state_of (onmessage d s)) = audioContextRef s"
  "audioStreamRef (state_of (onmessage d s)) = audioStreamRef s"
  "sessionIdRef (state_of (onmessage d s)) = sessionIdRef s"
  "isPaused (state_of (onmessage d s)) = isPaused s"
  "isRecording (state_of (onmessage d s)) = isRecording s"
  "isEndingSession (state_of (onmessage d s)) = isEndingSession s"
  "pending (state_of (onmessage d s)) = pending s"
  "appState (state_of (onmessage d s)) = appState s"
  "calls (state_of (onmessage d s)) = calls s"
  by (simp_all add: onmessage_def emit_def Let_def split: inbound.splits sum.splits)

lemma state_of_end_channel:
  "state_of (end_channel s) =
     (case close_channel (release_stream s) of
        Throws e s1 \<Rightarrow> s1\<lparr>pending := NoPending\<rparr>
      | Normal s1 \<Rightarrow> request_summary s1)"
  by (simp add: end_channel_def split: completion.splits)

lemma end_summary_fields:
  "next_id (end_summary out s) = next_id s" "sockets (end_summary out s) = sockets s"
  "contexts (end_summary out s) = contexts s" "processors (end_summary out s) = processors s"
  "streams (end_summary out s) = streams s" "wsRef (end_summary out s) = wsRef s"
  "audioProcessorRef (end_summary out s) = audioProcessorRef s"
  "audioContextRef (end_summary out s) = audioContextRef s"
  "audioStreamRef (end_summary out s) = audioStreamRef s"
  "sessionIdRef (end_summary out s) = None"
  "isPaused (end_summary out s) = isPaused s" "isRecording (end_summary out s) = isRecording s"
  "isEndingSession (end_summary out s) = False" "pending (end_summary out s) = NoPending"
  "transcriptEntries (end_summary out s) = []"
  "suggestions (end_summary out s) = []" "appState (end_summary out s) = contextMenu"
  "calls (end_summary out s) = calls s"
  by (cases out; simp add: end_summary_def end_clear_def emit_def Let_def)+

lemma toggle_fields:
  "processors (handleTogglePause s) = processors s" "sockets (handleTogglePause s) = sockets s"
  "transcriptEntries (handleTogglePause s) = transcriptEntries s"
  "suggestions (handleTogglePause s) = suggestions s"
  "appState (handleTogglePause s) = appState s"
  "isEndingSession (handleTogglePause s) = isEndingSession s"
  "pending (handleTogglePause s) = pending s" "calls (handleTogglePause s) = calls s"
  "next_id (handleTogglePause s) = next_id s"
  "sessionIdRef (handleTogglePause s) = sessionIdRef s" "wsRef (handleTogglePause s) = wsRef s"
  by (cases "audioContextRef s";
      simp add: handleTogglePause_def context_resume_def context_suspend_def enqueue_def emit_def Let_def)+

lemma release_stream_fields:
  "transcriptEntries (release_stream s) = transcriptEntries s"
  "suggestions (release_stream s) = suggestions s"
  "appState (release_stream s) = appState s"
  "sessionIdRef (release_stream s) = sessionIdRef s"
  "wsRef (release_stream s) = wsRef s" "sockets (release_stream s) = sockets s"
  "isPaused (release_stream s) = isPaused s" "isEndingSession (release_stream s) = isEndingSession s"
  "processors (release_stream s) = processors s" "calls (release_stream s) = calls s"
  "next_id (release_stream s) = next_id s"
  by (cases "audioStreamRef s"; simp add: release_stream_def tracks_stop_def emit_def)+

lemma close_channel_fields:
  "transcriptEntries (state_of (close_channel s)) = transcriptEntries s"
  "suggestions (state_of (close_channel s)) = suggestions s"
  "appState (state_of (close_channel s)) = appState s"
  "sessionIdRef (state_of (close_channel s)) = sessionIdRef s"
  "isPaused (state_of (close_channel s)) = isPaused s"
  "isEndingSession (state_of (close_channel s)) = isEndingSession s"
  "processors (state_of (close_channel s)) = processors s"
  "calls (state_of (close_channel s)) = calls s"
  "next_id (state_of (close_channel s)) = next_id s"
  by (cases "wsRef s"; cases "readyState (sockets s (the (wsRef s)))";
      simp add: close_channel_def ws_send_def ws_close_def emit_def)+

lemma request_summary_fields:
  "isPaused (request_summary s) = isPaused s"
  "isEndingSession (request_summary s) = isEndingSession s"
  "processors (request_summary s) = processors s" "calls (request_summary s) = calls s"
  "sockets (request_summary s) = sockets s" "next_id (request_summary s) = next_id s"
  by (cases "sessionIdRef s"; cases "the (sessionIdRef s) = []";
      simp add: request_summary_def end_clear_def emit_def)+

lemma release_processor_fields:
  "transcriptEntries (release_processor s) = transcriptEntries s"
  "suggestions (release_processor s) = suggestions s"
  "appState (release_processor s) = appState s"
  "audioContextRef (release_processor s) = audioContextRef s"
  "isPaused (release_processor s) = isPaused s"
  "isEndingSession (release_processor s) = isEndingSession s"
  "calls (release_processor s) = calls s" "sockets (release_processor s) = sockets s"
  "next_id (release_processor s) = next_id s" "contexts (release_processor s) = contexts s"
  "pending (release_processor s) = pending s"
  "closure_isPaused (processors (release_processor s) p) = closure_isPaused (processors s p)"
  by (cases "audioProcessorRef s"; simp add: release_processor_def node_disconnect_def emit_def)+
lemma request_summary_feeds: "feeds_kept s (request_summary s) \<or> feeds_cleared (request_summary s)"
  by (cases "sessionIdRef s"; cases "the (sessionIdRef s) = []")
     (simp_all add: request_summary_def end_clear_def emit_def feeds_kept_def feeds_cleared_def)

lemma end_channel_feeds:
  "feeds_kept s (state_of (end_channel s)) \<or> feeds_cleared (state_of (end_channel s))"
proof (cases "close_channel (release_stream s)")
  case (Normal s1)
  then have s1: "s1 = state_of (close_channel (release_stream s))" by simp
  have k: "feeds_kept s s1"
    unfolding s1 by (simp add: feeds_kept_def close_channel_fields release_stream_fields)
  show ?thesis
    using request_summary_feeds [of s1] k Normal
    by (auto simp: state_of_end_channel feeds_kept_def)
next
  case (Throws e s1)
  then have s1: "s1 = state_of (close_channel (release_stream s))" by simp
  have k: "feeds_kept s s1"
    unfolding s1 by (simp add: feeds_kept_def close_channel_fields release_stream_fields)
  show ?thesis using k Throws by (simp add: state_of_end_channel feeds_kept_def)
qed

lemma end_begin_feeds:
  "feeds_kept s (state_of (end_begin s)) \<or> feeds_cleared (state_of (end_begin s))"
proof -
  let ?s2 = "release_processor (s\<lparr>isEndingSession := True, isRecording := False, isPaused := False\<rparr>)"
  have k: "feeds_kept s ?s2" by (simp add: feeds_kept_def release_processor_fields)
  show ?thesis
  proof (cases "audioContextRef ?s2")
    case None
    then have "state_of (end_begin s) = state_of (end_channel ?s2)"
      by (simp add: end_begin_def Let_def)
    then show ?thesis using end_channel_feeds [of ?s2] k by (auto simp: feeds_kept_def)
  next
    case (Some c)
    then have "feeds_kept ?s2 (state_of (end_begin s))"
      by (cases "ctx_state (contexts ?s2 c) = closed")
         (simp_all add: end_begin_def Let_def context_close_def enqueue_def emit_def feeds_kept_def)
    then show ?thesis using k by (simp add: feeds_kept_def)
  qed
qed

lemma end_context_closed_feeds:
  "feeds_kept s (state_of (end_context_closed s)) \<or> feeds_cleared (state_of (end_context_closed s))"
  using end_channel_feeds [of "s\<lparr>audioContextRef := None\<rparr>"]
  by (simp add: end_context_closed_def feeds_kept_def)

lemma settle_feeds: "feeds_kept s (settle c s) \<or> feeds_cleared (settle c s)"
proof (cases "requested (contexts s c)")
  case Nil
  then show ?thesis by (simp add: settle_def feeds_kept_def)
next
  case (Cons r rs)
  let ?s1 = "s\<lparr>contexts := (contexts s)(c :=
                 \<lparr>ctx_state = carry_out r (ctx_state (contexts s c)), requested = rs\<rparr>)\<rparr>"
  show ?thesis
  proof (cases "r = DoClose \<and> pending s = AwaitContextClose c")
    case True
    then have "settle c s = state_of (end_context_closed ?s1)"
      using Cons by (simp add: settle_def)
    then show ?thesis using end_context_closed_feeds [of ?s1] by (auto simp: feeds_kept_def)
  next
    case False
    then have "settle c s = ?s1" using Cons by (auto simp: settle_def)
    then show ?thesis by (simp add: feeds_kept_def)
  qed
qed

lemma end_summary_feeds: "feeds_cleared (end_summary out s)"
  by (simp add: feeds_cleared_def end_summary_fields)

lemma start_created_feeds: "feeds_kept s (start_created k b cr s)"
  by (cases cr) (simp_all add: start_created_def start_catch_fields emit_def feeds_kept_def)

lemma start_granted_feeds: "feeds_kept s (start_granted k b sid mic s)"
  by (cases mic) (simp_all add: start_granted_def start_catch_fields start_session_eq feeds_kept_def)

lemma step_feeds:
  "(\<exists>w d. e = WsMessage w d \<and> readyState (sockets s w) = OPEN)
   \<or> feeds_kept s (step e s) \<or> feeds_cleared (step e s)"
proof (cases e)
  case (SetField v)
  then show ?thesis
    by (cases "editingField s"; cases "the (editingField s)") (simp_all add: feeds_kept_def)
next
  case StartRecording
  then show ?thesis by (simp add: start_begin_def emit_def feeds_kept_def)
next
  case (CreateResolved k cr)
  then show ?thesis using start_created_feeds [of s k _ cr]
    by (cases "calls s k") (simp_all add: feeds_kept_def)
next
  case (MicResolved k mic)
  then show ?thesis using start_granted_feeds [of s k _ _ mic]
    by (cases "calls s k") (simp_all add: feeds_kept_def)
next
  case TogglePause
  then show ?thesis by (simp add: toggle_fields feeds_kept_def)
next
  case EndSession
  then show ?thesis using end_begin_feeds [of s] by (auto simp: feeds_kept_def)
next
  case (ContextSettled c)
  then show ?thesis using settle_feeds [of s c] by simp
next
  case (SummaryResolved out)
  then show ?thesis using end_summary_feeds [of out s] by (simp add: feeds_kept_def)
next
  case (AudioProcess p d)
  then show ?thesis by (simp add: onaudioprocess_eq feeds_kept_def)
next
  case (WsMessage w d)
  then show ?thesis by (simp add: feeds_kept_def)
qed (simp_all add: feeds_kept_def handleConfirmName_def handleEditField_def handleBackToMenu_def emit_def)

lemmas eval_defs = initial_def no_socket_def no_context_def no_processor_def emit_def ws_send_def
  ws_close_def node_disconnect_def tracks_stop_def enqueue_def context_suspend_def
  context_resume_def context_close_def onmessage_def onaudioprocess_def start_session_def
  start_begin_def start_created_def start_granted_def start_catch_def
  handleTogglePause_def end_clear_def end_summary_def
  release_stream_def close_channel_def request_summary_def end_channel_def
  end_context_closed_def release_processor_def end_begin_def settle_def
  handleConfirmName_def handleEditField_def handleBackToMenu_def create_request_def
  or_else_def trim_truthy_def js_whitespace_def field_def is_type_def entry_of_def
  suggestion_of_def stop_message_def Let_def

section \<open>Ending a session: the order of the calls\<close>

lemma no_audio_after_stop_snoc:
  "stop_message \<notin> set fs \<Longrightarrow> no_audio_after_stop (fs @ [f])"
  by (induction fs) auto

lemma wire_okD:
  assumes "wire_ok s"
  shows "no_audio_after_stop (sent (sockets s w))"
    "live (readyState (sockets s w)) \<Longrightarrow> stop_message \<notin> set (sent (sockets s w))"
  using assms unfolding wire_ok_def by blast+

lemma wire_ok_same: "wire_ok s \<Longrightarrow> sockets s' = sockets s \<Longrightarrow> wire_ok s'"
  unfolding wire_ok_def by simp

lemma wire_ok_sent:
  assumes "wire_ok s" "readyState (sockets s w) = OPEN"
  shows "wire_ok (s\<lparr>sockets := (sockets s)(w := (sockets s w)\<lparr>sent := sent (sockets s w) @ [Binary b]\<rparr>)\<rparr>)"
proof -
  have n: "stop_message \<notin> set (sent (sockets s w))"
    using wire_okD(2) [OF assms(1), of w] assms(2) by (simp add: live_def)
  have a: "no_audio_after_stop (sent (sockets s w) @ [Binary b])"
    by (rule no_audio_after_stop_snoc [OF n])
  have b: "stop_message \<notin> set (sent (sockets s w) @ [Binary b])"
    using n by (simp add: stop_message_def)
  show ?thesis
    unfolding wire_ok_def
  proof (intro allI)
    fix v
    show "no_audio_after_stop (sent (sockets (s\<lparr>sockets := (sockets s)(w := (sockets s w)\<lparr>sent := sent (sockets s w) @ [Binary b]\<rparr>)\<rparr>) v)) \<and>
          (stop_message \<in> set (sent (sockets (s\<lparr>sockets := (sockets s)(w := (sockets s w)\<lparr>sent := sent (sockets s w) @ [Binary b]\<rparr>)\<rparr>) v)) \<longrightarrow>
           \<not> live (readyState (sockets (s\<lparr>sockets := (sockets s)(w := (sockets s w)\<lparr>sent := sent (sockets s w) @ [Binary b]\<rparr>)\<rparr>) v)))"
    proof (cases "v = w")
      case True
      then show ?thesis using a b by simp
    next
      case False
      then show ?thesis
        using wire_okD(1) [OF assms(1), of v] wire_okD(2) [OF assms(1), of v] by auto
    qed
  qed
qed

lemma wire_ok_state:
  assumes "wire_ok s" "r = OPEN \<Longrightarrow> readyState (sockets s w) = CONNECTING"
    "r \<noteq> CONNECTING"
  shows "wire_ok (s\<lparr>sockets := (sockets s)(w := (sockets s w)\<lparr>readyState := r\<rparr>)\<rparr>)"
  unfolding wire_ok_def
proof (intro allI)
  fix v
  let ?s' = "s\<lparr>sockets := (sockets s)(w := (sockets s w)\<lparr>readyState := r\<rparr>)\<rparr>"
  show "no_audio_after_stop (sent (sockets ?s' v)) \<and>
        (stop_message \<in> set (sent (sockets ?s' v)) \<longrightarrow> \<not> live (readyState (sockets ?s' v)))"
  proof (cases "v = w")
    case True
    have "stop_message \<in> set (sent (sockets s w)) \<Longrightarrow> \<not> live r"
      using wire_okD(2) [OF assms(1), of w] assms(2,3) by (cases r) (auto simp: live_def)
    then show ?thesis using True wire_okD(1) [OF assms(1), of w] by auto
  next
    case False
    then show ?thesis
      using wire_okD(1) [OF assms(1), of v] wire_okD(2) [OF assms(1), of v] by auto
  qed
qed

lemma wire_ok_stop:
  assumes "wire_ok s" "readyState (sockets s w) = OPEN"
  shows "wire_ok (s\<lparr>sockets := (sockets s)(w :=
           (sockets s w)\<lparr>sent := sent (sockets s w) @ [stop_message], readyState := CLOSING\<rparr>)\<rparr>)"
  unfolding wire_ok_def
proof (intro allI)
  fix v
  let ?s' = "s\<lparr>sockets := (sockets s)(w :=
           (sockets s w)\<lparr>sent := sent (sockets s w) @ [stop_message], readyState := CLOSING\<rparr>)\<rparr>"
  have n: "stop_message \<notin> set (sent (sockets s w))"
    using wire_okD(2) [OF assms(1), of w] assms(2) by (simp add: live_def)
  show "no_audio_after_stop (sent (sockets ?s' v)) \<and>
        (stop_message \<in> set (sent (sockets ?s' v)) \<longrightarrow> \<not> live (readyState (sockets ?s' v)))"
  proof (cases "v = w")
    case True
    then show ?thesis using no_audio_after_stop_snoc [OF n, of stop_message] by (simp add: live_def)
  next
    case False
    then show ?thesis
      using wire_okD(1) [OF assms(1), of v] wire_okD(2) [OF assms(1), of v] by auto
  qed
qed

lemma wire_ok_close_channel:
  assumes "wire_ok s" shows "wire_ok (state_of (close_channel s))"
proof (cases "wsRef s")
  case None
  then show ?thesis using assms by (simp add: close_channel_def)
next
  case (Some w)
  show ?thesis
  proof (cases "readyState (sockets s w)")
    case CONNECTING
    then have "sockets (state_of (close_channel s)) = sockets s"
      using Some by (simp add: close_channel_def ws_send_def emit_def)
    then show ?thesis by (rule wire_ok_same [OF assms])
  next
    case OPEN
    then have "sockets (state_of (close_channel s)) =
        sockets (s\<lparr>sockets := (sockets s)(w :=
           (sockets s w)\<lparr>sent := sent (sockets s w) @ [stop_message], readyState := CLOSING\<rparr>)\<rparr>)"
      using Some by (simp add: close_channel_def ws_send_def ws_close_def emit_def)
    then show ?thesis using wire_ok_stop [OF assms OPEN] wire_ok_same by blast
  next
    case CLOSING
    then have "sockets (state_of (close_channel s)) = sockets s"
      using Some by (simp add: close_channel_def ws_send_def ws_close_def emit_def)
    then show ?thesis by (rule wire_ok_same [OF assms])
  next
    case CLOSED
    then have "sockets (state_of (close_channel s)) = sockets s"
      using Some by (simp add: close_channel_def ws_send_def ws_close_def emit_def)
    then show ?thesis by (rule wire_ok_same [OF assms])
  qed
qed

lemma wire_ok_end_channel:
  assumes "wire_ok s" shows "wire_ok (state_of (end_channel s))"
proof -
  let ?c = "close_channel (release_stream s)"
  have "wire_ok (release_stream s)"
    by (rule wire_ok_same [OF assms]) (simp add: release_stream_fields)
  then have w: "wire_ok (state_of ?c)" by (rule wire_ok_close_channel)
  show ?thesis
  proof (cases ?c)
    case (Normal s1)
    then have "sockets (state_of (end_channel s)) = sockets (state_of ?c)"
      by (simp add: state_of_end_channel request_summary_fields)
    then show ?thesis by (rule wire_ok_same [OF w])
  next
    case (Throws e s1)
    then have "sockets (state_of (end_channel s)) = sockets (state_of ?c)"
      by (simp add: state_of_end_channel)
    then show ?thesis by (rule wire_ok_same [OF w])
  qed
qed

lemma wire_ok_end_begin:
  assumes "wire_ok s" shows "wire_ok (state_of (end_begin s))"
proof -
  let ?s2 = "release_processor (s\<lparr>isEndingSession := True, isRecording := False, isPaused := False\<rparr>)"
  have w2: "wire_ok ?s2" by (rule wire_ok_same [OF assms]) (simp add: release_processor_fields)
  show ?thesis
  proof (cases "audioContextRef ?s2")
    case None
    then have "state_of (end_begin s) = state_of (end_channel ?s2)"
      by (simp add: end_begin_def Let_def)
    then show ?thesis using wire_ok_end_channel [OF w2] by simp
  next
    case (Some c)
    then have "sockets (state_of (end_begin s)) = sockets ?s2"
      by (cases "ctx_state (contexts ?s2 c) = closed")
         (simp_all add: end_begin_def Let_def context_close_def enqueue_def emit_def)
    then show ?thesis by (rule wire_ok_same [OF w2])
  qed
qed

lemma wire_ok_settle:
  assumes "wire_ok s" shows "wire_ok (settle c s)"
proof (cases "requested (contexts s c)")
  case Nil
  then show ?thesis using assms by (simp add: settle_def)
next
  case (Cons r rs)
  let ?s1 = "s\<lparr>contexts := (contexts s)(c :=
                 \<lparr>ctx_state = carry_out r (ctx_state (contexts s c)), requested = rs\<rparr>)\<rparr>"
  have w1: "wire_ok (?s1\<lparr>audioContextRef := None\<rparr>)" "wire_ok ?s1"
    by (rule wire_ok_same [OF assms], simp)+
  show ?thesis
  proof (cases "r = DoClose \<and> pending s = AwaitContextClose c")
    case True
    then have "settle c s = state_of (end_channel (?s1\<lparr>audioContextRef := None\<rparr>))"
      using Cons by (simp add: settle_def end_context_closed_def)
    then show ?thesis using wire_ok_end_channel [OF w1(1)] by simp
  next
    case False
    then have "settle c s = ?s1" using Cons by (auto simp: settle_def)
    then show ?thesis using w1(2) by simp
  qed
qed

lemma wire_ok_step:
  assumes "wire_ok s" shows "wire_ok (step e s)"
proof (cases e)
  case (SetField v)
  then have "sockets (step e s) = sockets s"
    by (cases "editingField s"; cases "the (editingField s)") simp_all
  then show ?thesis by (rule wire_ok_same [OF assms])
next
  case StartRecording
  then have "sockets (step e s) = sockets s" by (simp add: start_begin_def emit_def)
  then show ?thesis by (rule wire_ok_same [OF assms])
next
  case (CreateResolved k cr)
  have "\<And>b. sockets (start_created k b cr s) = sockets s"
    by (cases cr) (simp_all add: start_created_def start_catch_fields emit_def)
  then have "sockets (step e s) = sockets s" using CreateResolved by (cases "calls s k") simp_all
  then show ?thesis by (rule wire_ok_same [OF assms])
next
  case (MicResolved k mic)
  have g: "\<And>b sid. wire_ok (start_granted k b sid mic s)"
  proof -
    fix b sid
    show "wire_ok (start_granted k b sid mic s)"
    proof (cases mic)
      case (MicRejected x)
      then have "sockets (start_granted k b sid mic s) = sockets s"
        by (simp add: start_granted_def start_catch_fields)
      then show ?thesis by (rule wire_ok_same [OF assms])
    next
      case MicGranted
      have "wire_ok (start_session sid b (s\<lparr>calls := (calls s)(k := NoCall)\<rparr>))"
        unfolding wire_ok_def
      proof (intro allI)
        fix v
        show "no_audio_after_stop (sent (sockets (start_session sid b (s\<lparr>calls := (calls s)(k := NoCall)\<rparr>)) v)) \<and>
          (stop_message \<in> set (sent (sockets (start_session sid b (s\<lparr>calls := (calls s)(k := NoCall)\<rparr>)) v)) \<longrightarrow>
           \<not> live (readyState (sockets (start_session sid b (s\<lparr>calls := (calls s)(k := NoCall)\<rparr>)) v)))"
          using wire_okD(1) [OF assms, of v] wire_okD(2) [OF assms, of v]
          by (cases "v = Suc (next_id s)") (auto simp: start_session_eq)
      qed
      then show ?thesis using MicGranted by (simp add: start_granted_def)
    qed
  qed
  show ?thesis using MicResolved g assms by (cases "calls s k") simp_all
next
  case TogglePause
  then have "sockets (step e s) = sockets s" by (simp add: toggle_fields)
  then show ?thesis by (rule wire_ok_same [OF assms])
next
  case EndSession
  then show ?thesis using wire_ok_end_begin [OF assms] assms by simp
next
  case (ContextSettled c)
  then show ?thesis using wire_ok_settle [OF assms] by simp
next
  case (SummaryResolved out)
  then have "sockets (step e s) = sockets s" by (simp add: end_summary_fields)
  then show ?thesis by (rule wire_ok_same [OF assms])
next
  case (AudioProcess p d)
  show ?thesis
  proof (cases "readyState (sockets s (closure_ws (processors s p))) = OPEN")
    case True
    have "wire_ok (onaudioprocess p d s)"
    proof (cases "closure_isPaused (processors s p)")
      case True
      then show ?thesis using assms by (simp add: onaudioprocess_eq)
    next
      case False
      have "sockets (onaudioprocess p d s) =
          sockets (s\<lparr>sockets := (sockets s)(closure_ws (processors s p) :=
             (sockets s (closure_ws (processors s p)))
               \<lparr>sent := sent (sockets s (closure_ws (processors s p))) @ [Binary (pcm16_of d)]\<rparr>)\<rparr>)"
        using False True by (simp add: onaudioprocess_eq)
      then show ?thesis using wire_ok_sent [OF assms True] wire_ok_same by blast
    qed
    then show ?thesis using AudioProcess assms by simp
  next
    case False
    then have "step e s = s" using AudioProcess by (simp add: onaudioprocess_eq)
    then show ?thesis using assms by simp
  qed
next
  case (WsOpen w)
  show ?thesis
  proof (cases "readyState (sockets s w) = CONNECTING")
    case True
    have "sockets (step e s) =
        sockets (s\<lparr>sockets := (sockets s)(w := (sockets s w)\<lparr>readyState := OPEN\<rparr>)\<rparr>)"
      using WsOpen True by (simp add: emit_def)
    then show ?thesis using wire_ok_state [OF assms, of OPEN w] True wire_ok_same by blast
  next
    case False
    then show ?thesis using WsOpen assms by simp
  qed
next
  case (WsMessage w d)
  then have "sockets (step e s) = sockets s" by (simp add: onmessage_fields)
  then show ?thesis by (rule wire_ok_same [OF assms])
next
  case (WsError w)
  then have "sockets (step e s) = sockets s" by (simp add: emit_def)
  then show ?thesis by (rule wire_ok_same [OF assms])
next
  case (WsClosed w)
  show ?thesis
  proof (cases "readyState (sockets s w) \<noteq> CLOSED")
    case True
    have "sockets (step e s) =
        sockets (s\<lparr>sockets := (sockets s)(w := (sockets s w)\<lparr>readyState := CLOSED\<rparr>)\<rparr>)"
      using WsClosed True by (simp add: emit_def)
    then show ?thesis using wire_ok_state [OF assms, of CLOSED w] wire_ok_same by blast
  next
    case False
    then show ?thesis using WsClosed assms by simp
  qed
qed (simp_all add: wire_ok_same [OF assms] handleConfirmName_def handleEditField_def handleBackToMenu_def)

lemma wire_ok_run: "wire_ok s \<Longrightarrow> wire_ok (run evs s)"
  by (induction evs arbitrary: s) (simp_all add: wire_ok_step)

lemma wire_ok_initial: "wire_ok initial"
  by (simp add: wire_ok_def initial_def no_socket_def)

text \<open>
  In every state the component reaches from its first render, on no socket does an
  audio frame follow the stop message, and a socket the stop message went out on is
  closing or closed: nothing more is put on it.
\<close>

lemma stop_ends_audio:
  "no_audio_after_stop (sent (sockets (run evs initial) w))"
  "stop_message \<in> set (sent (sockets (run evs initial) w)) \<Longrightarrow>
     readyState (sockets (run evs initial) w) = CLOSING \<or>
     readyState (sockets (run evs initial) w) = CLOSED"
proof -
  have ok: "wire_ok (run evs initial)" by (rule wire_ok_run [OF wire_ok_initial])
  show "no_audio_after_stop (sent (sockets (run evs initial) w))" by (rule wire_okD(1) [OF ok])
  show "stop_message \<in> set (sent (sockets (run evs initial) w)) \<Longrightarrow>
     readyState (sockets (run evs initial) w) = CLOSING \<or>
     readyState (sockets (run evs initial) w) = CLOSED"
    using wire_okD(2) [OF ok, of w]
    by (cases "readyState (sockets (run evs initial) w)") (auto simp: live_def)
qed

text \<open>
  C1 fails in the code. Ended while its socket is still connecting, the handler
  disconnects the processor, closes the context, stops the tracks and calls \<^verbatim>\<open>send\<close>,
  which throws: the handler ends there. The socket is never closed and stays in its
  ref, no summary is requested, the session id stays, the screen stays the recording
  screen with \<^verbatim>\<open>isEndingSession\<close> set, so neither button is there any more: pressing
  where they were does nothing. Nothing went out on the socket. Ended with
  the socket open, the calls go out in the order disconnect, close of the context,
  stop of the tracks, stop message, close of the socket, summary request.
\<close>

theorem end_session_connecting:
  "effects (run [SetUserName ''Ana'', ConfirmName, StartRecording, CreateResolved 0 (Created ''s1''),
                 MicResolved 0 MicGranted, EndSession, ContextSettled 2] initial)
     = [Fetch (CreateSession \<lparr>body_context = ''General conversation'',
                              body_goal = ''Have a great conversation'', body_user_name = ''Ana'',
                              body_participants = [], body_tone = []\<rparr>),
        ConsoleLog ''Session created:'', GetUserMedia, NewWebSocket 1, NewAudioContext 2,
        Disconnect 3, ContextClose 2, TracksStop 0, Send 1 stop_message]
   \<and> appState (run [SetUserName ''Ana'', ConfirmName, StartRecording, CreateResolved 0 (Created ''s1''),
                 MicResolved 0 MicGranted, EndSession, ContextSettled 2] initial) = recording
   \<and> isEndingSession (run [SetUserName ''Ana'', ConfirmName, StartRecording,
                 CreateResolved 0 (Created ''s1''), MicResolved 0 MicGranted, EndSession,
                 ContextSettled 2] initial)
   \<and> pending (run [SetUserName ''Ana'', ConfirmName, StartRecording, CreateResolved 0 (Created ''s1''),
                 MicResolved 0 MicGranted, EndSession, ContextSettled 2] initial) = NoPending
   \<and> wsRef (run [SetUserName ''Ana'', ConfirmName, StartRecording, CreateResolved 0 (Created ''s1''),
                 MicResolved 0 MicGranted, EndSession, ContextSettled 2] initial) = Some 1
   \<and> readyState (sockets (run [SetUserName ''Ana'', ConfirmName, StartRecording,
                 CreateResolved 0 (Created ''s1''), MicResolved 0 MicGranted, EndSession,
                 ContextSettled 2] initial) 1) = CONNECTING
   \<and> sessionIdRef (run [SetUserName ''Ana'', ConfirmName, StartRecording,
                 CreateResolved 0 (Created ''s1''), MicResolved 0 MicGranted, EndSession,
                 ContextSettled 2] initial) = Some ''s1''
   \<and> sent (sockets (run [SetUserName ''Ana'', ConfirmName, StartRecording,
                 CreateResolved 0 (Created ''s1''), MicResolved 0 MicGranted, EndSession,
                 ContextSettled 2] initial) 1) = []
   \<and> run [SetUserName ''Ana'', ConfirmName, StartRecording, CreateResolved 0 (Created ''s1''),
           MicResolved 0 MicGranted, EndSession, ContextSettled 2, EndSession, TogglePause] initial
     = run [SetUserName ''Ana'', ConfirmName, StartRecording, CreateResolved 0 (Created ''s1''),
           MicResolved 0 MicGranted, EndSession, ContextSettled 2] initial
   \<and> \<not> returns (handleEndSession out
          (run [SetUserName ''Ana'', ConfirmName, StartRecording, CreateResolved 0 (Created ''s1''),
                MicResolved 0 MicGranted] initial))
   \<and> effects (run [SetUserName ''Ana'', ConfirmName, StartRecording, CreateResolved 0 (Created ''s1''),
                 MicResolved 0 MicGranted, WsOpen 1, EndSession, ContextSettled 2] initial)
     = [Fetch (CreateSession \<lparr>body_context = ''General conversation'',
                              body_goal = ''Have a great conversation'', body_user_name = ''Ana'',
                              body_participants = [], body_tone = []\<rparr>),
        ConsoleLog ''Session created:'', GetUserMedia, NewWebSocket 1, NewAudioContext 2,
        ConsoleLog ''WebSocket connected'',
        Disconnect 3, ContextClose 2, TracksStop 0, Send 1 stop_message, Close 1,
        Fetch (FinishSession ''s1'')]"
  by (simp add: eval_defs handleEndSession_def)

section \<open>Starting a session: what a failure leaves\<close>

text \<open>
  C2 fails in the code. When the session is created and the microphone is then refused
  or missing, the \<^verbatim>\<open>catch\<close> block logs, drops the loading flag and shows its toast; the
  session id the call stored stays in \<^verbatim>\<open>sessionIdRef\<close>, and nothing asks the backend to
  finish that session. The \<^verbatim>\<open>catch\<close> block never touches the ref, whatever was thrown.
  No stream, socket, context or processor is made or held on that path, and a start
  whose creation request fails leaves the ref as it was.
\<close>

theorem start_leaves_session_id:
  "appState (run [SetUserName ''Ana'', ConfirmName, StartRecording, CreateResolved 0 (Created ''s1''),
                  MicResolved 0 (MicRejected (Exn ''NotAllowedError'' ''Permission denied''))] initial)
     = contextMenu
   \<and> sessionIdRef (run [SetUserName ''Ana'', ConfirmName, StartRecording,
                  CreateResolved 0 (Created ''s1''),
                  MicResolved 0 (MicRejected (Exn ''NotAllowedError'' ''Permission denied''))] initial)
     = Some ''s1''
   \<and> effects (run [SetUserName ''Ana'', ConfirmName, StartRecording, CreateResolved 0 (Created ''s1''),
                  MicResolved 0 (MicRejected (Exn ''NotAllowedError'' ''Permission denied''))] initial)
     = [Fetch (CreateSession \<lparr>body_context = ''General conversation'',
                              body_goal = ''Have a great conversation'', body_user_name = ''Ana'',
                              body_participants = [], body_tone = []\<rparr>),
        ConsoleLog ''Session created:'', GetUserMedia,
        ConsoleError ''Microphone permission error:'',
        Toast ''Microphone Access Blocked'' ''Please allow microphone access, then try again.'']
   \<and> wsRef (run [SetUserName ''Ana'', ConfirmName, StartRecording, CreateResolved 0 (Created ''s1''),
                  MicResolved 0 (MicRejected (Exn ''NotAllowedError'' ''Permission denied''))] initial)
     = None
   \<and> audioStreamRef (run [SetUserName ''Ana'', ConfirmName, StartRecording,
                  CreateResolved 0 (Created ''s1''),
                  MicResolved 0 (MicRejected (Exn ''NotAllowedError'' ''Permission denied''))] initial)
     = None
   \<and> audioContextRef (run [SetUserName ''Ana'', ConfirmName, StartRecording,
                  CreateResolved 0 (Created ''s1''),
                  MicResolved 0 (MicRejected (Exn ''NotAllowedError'' ''Permission denied''))] initial)
     = None
   \<and> next_id (run [SetUserName ''Ana'', ConfirmName, StartRecording, CreateResolved 0 (Created ''s1''),
                  MicResolved 0 (MicRejected (Exn ''NotAllowedError'' ''Permission denied''))] initial)
     = 0
   \<and> sessionIdRef (run [SetUserName ''Ana'', ConfirmName, StartRecording,
                  CreateResolved 0 (Created ''s1''),
                  MicResolved 0 (MicRejected (Exn ''NotFoundError'' ''Requested device not found''))] initial)
     = Some ''s1''
   \<and> sessionIdRef (run [SetUserName ''Ana'', ConfirmName, StartRecording,
                  CreateResolved 0 ResponseNotOk] initial)
     = None
   \<and> sessionIdRef (start_catch e s) = sessionIdRef s
   \<and> sessionIdRef (handleStartRecording (Created sid) (MicRejected e) s) = Some sid
   \<and> appState (handleStartRecording (Created sid) (MicRejected e) s) = appState s"
proof (intro conjI)
  show "sessionIdRef (start_catch e s) = sessionIdRef s" by (simp add: start_catch_fields)
  show "sessionIdRef (handleStartRecording (Created sid) (MicRejected e) s) = Some sid"
    by (simp add: handleStartRecording_def start_granted_def start_created_def start_begin_def
          start_catch_fields emit_def Let_def)
  show "appState (handleStartRecording (Created sid) (MicRejected e) s) = appState s"
    by (simp add: handleStartRecording_def start_granted_def start_created_def start_begin_def
          start_catch_fields emit_def Let_def)
qed (simp_all add: eval_defs)

section \<open>Pausing\<close>

text \<open>
  C3 fails in the code. The pause handler sets the flag and calls \<^verbatim>\<open>suspend()\<close>, which
  returns a promise and is carried out later; a capture callback that comes in between
  tests the \<^verbatim>\<open>isPaused\<close> of its closure, which is false, and sends its frame on the open
  socket while the flag is set. Once the suspension is carried out the platform stops
  calling. The toggle tests \<^verbatim>\<open>audioContext.state\<close>, which changes only then: a resume
  pressed before that finds the state \<^verbatim>\<open>running\<close> and calls nothing, the suspension is
  carried out afterwards, and the session is left not paused with a suspended context
  and no frame delivered. When the calls are carried out before the next press, the
  resume brings delivery back on the same socket and session; no toggle touches the
  sockets, the socket ref or the session id.
\<close>

theorem paused_delivers_frame:
  "isPaused (run [SetUserName ''Ana'', ConfirmName, StartRecording, CreateResolved 0 (Created ''s1''),
                  MicResolved 0 MicGranted, WsOpen 1, TogglePause] initial)
   \<and> sent (sockets (run [SetUserName ''Ana'', ConfirmName, StartRecording,
                          CreateResolved 0 (Created ''s1''), MicResolved 0 MicGranted, WsOpen 1,
                          TogglePause] initial) 1) = []
   \<and> isPaused (run [SetUserName ''Ana'', ConfirmName, StartRecording, CreateResolved 0 (Created ''s1''),
                  MicResolved 0 MicGranted, WsOpen 1, TogglePause, AudioProcess 3 [Finite 1]] initial)
   \<and> sent (sockets (run [SetUserName ''Ana'', ConfirmName, StartRecording,
                          CreateResolved 0 (Created ''s1''), MicResolved 0 MicGranted, WsOpen 1,
                          TogglePause, AudioProcess 3 [Finite 1]] initial) 1)
       = [Binary (pcm16_of [Finite 1])]
   \<and> sent (sockets (run [SetUserName ''Ana'', ConfirmName, StartRecording,
                          CreateResolved 0 (Created ''s1''), MicResolved 0 MicGranted, WsOpen 1,
                          TogglePause, ContextSettled 2, AudioProcess 3 [Finite 1]] initial) 1) = []
   \<and> \<not> isPaused (run [SetUserName ''Ana'', ConfirmName, StartRecording,
                       CreateResolved 0 (Created ''s1''), MicResolved 0 MicGranted, WsOpen 1,
                       TogglePause, TogglePause, ContextSettled 2, ContextSettled 2] initial)
   \<and> ctx_state (contexts (run [SetUserName ''Ana'', ConfirmName, StartRecording,
                       CreateResolved 0 (Created ''s1''), MicResolved 0 MicGranted, WsOpen 1,
                       TogglePause, TogglePause, ContextSettled 2, ContextSettled 2] initial) 2)
       = suspended
   \<and> sent (sockets (run [SetUserName ''Ana'', ConfirmName, StartRecording,
                       CreateResolved 0 (Created ''s1''), MicResolved 0 MicGranted, WsOpen 1,
                       TogglePause, TogglePause, ContextSettled 2, ContextSettled 2,
                       AudioProcess 3 [Finite 1]] initial) 1) = []
   \<and> sent (sockets (run [SetUserName ''Ana'', ConfirmName, StartRecording,
                       CreateResolved 0 (Created ''s1''), MicResolved 0 MicGranted, WsOpen 1,
                       TogglePause, ContextSettled 2, TogglePause, ContextSettled 2,
                       AudioProcess 3 [Finite 1]] initial) 1)
       = [Binary (pcm16_of [Finite 1])]
   \<and> sockets (handleTogglePause s) = sockets s
   \<and> wsRef (handleTogglePause s) = wsRef s
   \<and> sessionIdRef (handleTogglePause s) = sessionIdRef s
   \<and> next_id (handleTogglePause s) = next_id s"
proof (intro conjI)
  show "sockets (handleTogglePause s) = sockets s" by (simp add: toggle_fields)
  show "wsRef (handleTogglePause s) = wsRef s" by (simp add: toggle_fields)
  show "sessionIdRef (handleTogglePause s) = sessionIdRef s" by (simp add: toggle_fields)
  show "next_id (handleTogglePause s) = next_id s" by (simp add: toggle_fields)
qed (simp_all add: eval_defs)

section \<open>The suggestion feed\<close>

lemma onmessage_suggestion:
  "is_type ''suggestion'' m \<Longrightarrow>
     suggestions (state_of (onmessage (Parsed m) s)) = take 3 (suggestion_of m # suggestions s)"
  by (simp add: onmessage_def is_type_def suggestion_of_def emit_def Let_def)

lemma onmessage_not_suggestion:
  "\<not> is_type ''suggestion'' m \<Longrightarrow> suggestions (state_of (onmessage (Parsed m) s)) = suggestions s"
  by (cases "get_prop m ''type''") (simp_all add: onmessage_def is_type_def emit_def Let_def)

lemma onmessage_unparseable: "state_of (onmessage Unparseable s) = s"
  by (simp add: onmessage_def)

lemma onmessage_suggestions_le:
  "length (suggestions s) \<le> 3 \<Longrightarrow> length (suggestions (state_of (onmessage d s))) \<le> 3"
  by (cases d; cases "is_type ''suggestion'' (case d of Parsed m \<Rightarrow> m)")
     (simp_all add: onmessage_suggestion onmessage_not_suggestion onmessage_unparseable)

lemma take_append_take: "take n (xs @ take n ys) = take n (xs @ ys)"
  by (simp add: min_def)

lemma receive_all_suggestions:
  "list_all (is_type ''suggestion'') ms \<Longrightarrow>
     suggestions (receive_all (map Parsed ms) s) =
       (if ms = [] then suggestions s else take 3 (rev (map suggestion_of ms) @ suggestions s))"
proof (induction ms arbitrary: s)
  case Nil
  then show ?case by simp
next
  case (Cons m ms)
  let ?s1 = "state_of (onmessage (Parsed m) s)"
  have s1: "suggestions ?s1 = take 3 (suggestion_of m # suggestions s)"
    using Cons.prems by (simp add: onmessage_suggestion)
  have ih: "suggestions (receive_all (map Parsed ms) ?s1) =
       (if ms = [] then suggestions ?s1 else take 3 (rev (map suggestion_of ms) @ suggestions ?s1))"
    using Cons.prems by (intro Cons.IH) simp
  show ?case
  proof (cases "ms = []")
    case True
    then show ?thesis using s1 by simp
  next
    case False
    have "take 3 (rev (map suggestion_of ms) @ take 3 (suggestion_of m # suggestions s))
        = take 3 (rev (map suggestion_of ms) @ suggestion_of m # suggestions s)"
      by (rule take_append_take)
    then show ?thesis using ih s1 False by simp
  qed
qed
lemma step_suggestions_le:
  assumes "length (suggestions s) \<le> 3" shows "length (suggestions (step e s)) \<le> 3"
proof -
  consider (msg) w d where "e = WsMessage w d" "readyState (sockets s w) = OPEN"
    | (kept) "feeds_kept s (step e s)" | (cleared) "feeds_cleared (step e s)"
    using step_feeds [of e s] by blast
  then show ?thesis
  proof cases
    case msg then show ?thesis using onmessage_suggestions_le [OF assms] by simp
  next
    case kept then show ?thesis using assms by (simp add: feeds_kept_def)
  next
    case cleared then show ?thesis by (simp add: feeds_cleared_def)
  qed
qed

lemma run_suggestions_le:
  "length (suggestions s) \<le> 3 \<Longrightarrow> length (suggestions (run evs s)) \<le> 3"
  by (induction evs arbitrary: s) (simp_all add: step_suggestions_le)

text \<open>
  C4. The suggestion sink never holds more than three entries, in any state the
  component reaches. Suggestion messages \<open>m1 .. mN\<close> handled in order put their
  suggestions in front of what was there, newest first, and cut the list to three; from
  three messages on, what is kept is exactly the suggestions of the last three, newest
  first, whatever was there before. Nothing is compared or removed for being equal.
\<close>

theorem suggestion_sink:
  "length (suggestions (run evs initial)) \<le> 3
   \<and> (list_all (is_type ''suggestion'') ms \<and> ms \<noteq> [] \<longrightarrow>
        suggestions (receive_all (map Parsed ms) s) =
          take 3 (rev (map suggestion_of ms) @ suggestions s))
   \<and> (list_all (is_type ''suggestion'') ms \<and> 3 \<le> length ms \<longrightarrow>
        suggestions (receive_all (map Parsed ms) s) =
          rev (map suggestion_of (drop (length ms - 3) ms)))"
proof (intro conjI impI)
  show "length (suggestions (run evs initial)) \<le> 3"
    by (rule run_suggestions_le) (simp add: initial_def)
next
  assume "list_all (is_type ''suggestion'') ms \<and> ms \<noteq> []"
  then show "suggestions (receive_all (map Parsed ms) s) =
          take 3 (rev (map suggestion_of ms) @ suggestions s)"
    using receive_all_suggestions [of ms s] by simp
next
  assume a: "list_all (is_type ''suggestion'') ms \<and> 3 \<le> length ms"
  then have ne: "ms \<noteq> []" by auto
  have "suggestions (receive_all (map Parsed ms) s) =
          take 3 (rev (map suggestion_of ms) @ suggestions s)"
    using receive_all_suggestions [of ms s] a ne by simp
  also have "\<dots> = take 3 (rev (map suggestion_of ms))" using a by simp
  also have "\<dots> = rev (map suggestion_of (drop (length ms - 3) ms))"
    by (simp add: take_rev drop_map rev_map take_map)
  finally show "suggestions (receive_all (map Parsed ms) s) =
          rev (map suggestion_of (drop (length ms - 3) ms))" .
qed

theorem suggestion_sink_witness:
  "suggestions (receive_all (map Parsed
      [JObject [(''type'', JString ''suggestion''), (''text'', JString ''one'')],
       JObject [(''type'', JString ''suggestion''), (''text'', JString ''two'')],
       JObject [(''type'', JString ''suggestion''), (''text'', JString ''two'')],
       JObject [(''type'', JString ''suggestion''), (''text'', JString ''three'')]]) initial)
   = [\<lparr>sug_text = Some (JString ''three''), sug_type = ''tip'', sug_priority = ''high'', sug_timestamp = None\<rparr>,
      \<lparr>sug_text = Some (JString ''two''), sug_type = ''tip'', sug_priority = ''high'', sug_timestamp = None\<rparr>,
      \<lparr>sug_text = Some (JString ''two''), sug_type = ''tip'', sug_priority = ''high'', sug_timestamp = None\<rparr>]"
  using suggestion_sink [of "[]"
      "[JObject [(''type'', JString ''suggestion''), (''text'', JString ''one'')],
       JObject [(''type'', JString ''suggestion''), (''text'', JString ''two'')],
       JObject [(''type'', JString ''suggestion''), (''text'', JString ''two'')],
       JObject [(''type'', JString ''suggestion''), (''text'', JString ''three'')]]" initial]
  by (simp add: is_type_def suggestion_of_def field_def)

section \<open>PCM conversion: properties\<close>

lemma clamp_sample_Finite: "clamp_sample (Finite r) = Finite (max (- 1) (min 1 r))"
  by (simp add: clamp_sample_def)

lemma clamp_sample_cases:
  "clamp_sample x = NaN \<or> (\<exists>r. clamp_sample x = Finite r \<and> - 1 \<le> r \<and> r \<le> 1)"
  by (cases x) (simp_all add: clamp_sample_def)

lemma trunc_bounds:
  assumes "- 32768 \<le> r" "r \<le> 32767"
  shows "- 32768 \<le> trunc r \<and> trunc r \<le> 32767"
proof (cases "0 \<le> r")
  case True
  then have "0 \<le> \<lfloor>r\<rfloor>" by simp
  moreover have "\<lfloor>r\<rfloor> \<le> 32767" using assms(2) by (simp add: floor_le_iff)
  ultimately show ?thesis using True by (simp add: trunc_def)
next
  case False
  then have "\<lceil>r\<rceil> \<le> 0" by (simp add: ceiling_le_iff)
  moreover have "- 32768 \<le> \<lceil>r\<rceil>" using assms(1) by (simp add: le_ceiling_iff)
  ultimately show ?thesis using False by (simp add: trunc_def)
qed

lemma scaled_bounds:
  assumes "- 1 \<le> (s::real)" "s \<le> 1"
  shows "- 32768 \<le> (if s < 0 then s * 32768 else s * 32767)"
    and "(if s < 0 then s * 32768 else s * 32767) \<le> 32767"
  using assms by (auto split: if_splits)

lemma sint_word16_of_int:
  assumes "- 32768 \<le> i" "i \<le> 32767"
  shows "sint (word_of_int i :: 16 word) = i"
  using assms by (simp add: signed_of_int signed_take_bit_int_eq_self)

text \<open>
  C5. The conversion clamps a sample to \<open>[-1, 1]\<close> and scales it by 32768 below zero and
  by 32767 from zero on: 1.0 gives 32767, -1.0 gives -32768, 0.0 gives 0; whatever the
  input, also outside \<open>[-1, 1]\<close>, an infinity or NaN, the stored value lies in
  \<open>[-32768, 32767]\<close>, and for a finite input it is the scaled clamped sample rounded
  toward zero, so that the store into the 16-bit array never wraps.
\<close>

theorem pcm16_conversion:
  "sint (pcm16_sample (Finite 1)) = 32767
   \<and> sint (pcm16_sample (Finite (- 1))) = - 32768
   \<and> sint (pcm16_sample (Finite 0)) = 0
   \<and> - 32768 \<le> sint (pcm16_sample x) \<and> sint (pcm16_sample x) \<le> 32767
   \<and> clamp_sample (Finite r) = Finite (max (- 1) (min 1 r))
   \<and> sint (pcm16_sample (Finite r)) =
       trunc (if max (- 1) (min 1 r) < 0 then max (- 1) (min 1 r) * 32768
                 else max (- 1) (min 1 r) * 32767)
   \<and> pcm16_sample PlusInfinity = pcm16_sample (Finite 1)
   \<and> pcm16_sample MinusInfinity = pcm16_sample (Finite (- 1))
   \<and> pcm16_sample NaN = 0"
proof -
  have one: "sint (pcm16_sample (Finite 1)) = 32767"
    by (simp add: pcm16_sample_def clamp_sample_def scale_sample_def trunc_def
        signed_of_int signed_take_bit_int_eq_self)
  have mone: "sint (pcm16_sample (Finite (- 1))) = - 32768"
    by (simp add: pcm16_sample_def clamp_sample_def scale_sample_def trunc_def
        signed_of_int signed_take_bit_int_eq_self)
  have zero: "sint (pcm16_sample (Finite 0)) = 0"
    by (simp add: pcm16_sample_def clamp_sample_def scale_sample_def trunc_def)
  define s where "s = max (- 1) (min 1 r)"
  have sb: "- 1 \<le> s" "s \<le> 1" by (simp_all add: s_def)
  let ?v = "if s < 0 then s * 32768 else s * 32767"
  have tb: "- 32768 \<le> trunc ?v \<and> trunc ?v \<le> 32767"
    using scaled_bounds [OF sb] by (intro trunc_bounds)
  have eq: "pcm16_sample (Finite r) = word_of_int (trunc ?v)"
    unfolding pcm16_sample_def clamp_sample_Finite scale_sample_def s_def [symmetric]
    by (cases "s < 0") simp_all
  have fin: "sint (pcm16_sample (Finite r)) = trunc ?v"
    unfolding eq using tb by (intro sint_word16_of_int) simp_all
  have lo: "- 32768 \<le> sint (pcm16_sample x)"
    using sint_ge [of "pcm16_sample x"] by simp
  have hi: "sint (pcm16_sample x) \<le> 32767"
    using sint_lt [of "pcm16_sample x"] by simp
  have inf: "pcm16_sample PlusInfinity = pcm16_sample (Finite 1)"
    "pcm16_sample MinusInfinity = pcm16_sample (Finite (- 1))" "pcm16_sample NaN = 0"
    by (simp_all add: pcm16_sample_def clamp_sample_def scale_sample_def)
  note fin' = fin [unfolded s_def]
  show ?thesis
    by (intro conjI one mone zero lo hi fin' inf clamp_sample_Finite)
qed

section \<open>Messages the handler cannot read\<close>

text \<open>
  C6 fails in the code. The handler's first statement is an unguarded \<^verbatim>\<open>JSON.parse\<close>: on
  data that does not parse it throws a SyntaxError out of the handler, before the log
  and with nothing written; on the text \<^verbatim>\<open>null\<close> the parse succeeds, the log is made, and
  reading \<^verbatim>\<open>message.type\<close> throws a TypeError. In both cases the handler does not return
  normally; the state is as before, apart from that log. A message that parses to an
  object with a type the handler does not know is logged like every message and
  dropped: there the handler returns and changes nothing else.
\<close>

theorem malformed_message_throws:
  "onmessage Unparseable s = Throws (Exn ''SyntaxError'' ''Unexpected token'') s
   \<and> \<not> returns (onmessage Unparseable s)
   \<and> effects (state_of (onmessage Unparseable s)) = effects s
   \<and> onmessage (Parsed JNull) s =
       Throws (Exn ''TypeError'' ''Cannot read properties of null'')
         (emit (ConsoleLog ''WebSocket message:'') s)
   \<and> \<not> returns (onmessage (Parsed JNull) s)
   \<and> step (WsMessage w Unparseable) s = s
   \<and> onmessage (Parsed (JObject [(''type'', JString ''ping'')])) s =
       Normal (emit (ConsoleLog ''WebSocket message:'') s)
   \<and> onmessage (Parsed (JObject [(''kind'', JString ''transcript'')])) s =
       Normal (emit (ConsoleLog ''WebSocket message:'') s)
   \<and> onmessage (Parsed (JNumber 7)) s = Normal (emit (ConsoleLog ''WebSocket message:'') s)"
  by (simp add: onmessage_def emit_def Let_def)

section \<open>The summary request\<close>

text \<open>
  C7 fails in the code. When the summary request comes back with a response that is not
  ok, the handler does nothing about it: the \<^verbatim>\<open>if (response.ok)\<close> has no \<^verbatim>\<open>else\<close>, so no
  error is logged and no toast shown; the feeds and the session id are cleared and the
  context menu comes back as after a summary, without the feedback dialog. When
  \<^verbatim>\<open>fetch\<close> itself rejects, or the body does not parse, the \<^verbatim>\<open>catch\<close> block logs and
  shows the toast. In each case the teardown before the request has been done, one
  request was sent, and the handler ends at the context menu.
\<close>

theorem summary_not_ok_is_silent:
  "effects (end_summary SummaryNotOk s) = effects s
   \<and> showFeedback (end_summary SummaryNotOk s) = showFeedback s
   \<and> sessionSummary (end_summary SummaryNotOk s) = sessionSummary s
   \<and> appState (end_summary SummaryNotOk s) = contextMenu
   \<and> \<not> isEndingSession (end_summary SummaryNotOk s)
   \<and> transcriptEntries (end_summary SummaryNotOk s) = []
   \<and> suggestions (end_summary SummaryNotOk s) = []
   \<and> sessionIdRef (end_summary SummaryNotOk s) = None
   \<and> effects (end_summary (SummaryFetchRejected e) s) =
       effects s @ [ConsoleError ''Error getting session summary:'',
                    Toast ''Error'' ''Failed to get session summary'']
   \<and> effects (end_summary (SummaryJsonRejected e) s) =
       effects s @ [ConsoleError ''Error getting session summary:'',
                    Toast ''Error'' ''Failed to get session summary'']
   \<and> appState (end_summary (SummaryFetchRejected e) s) = contextMenu
   \<and> effects (run [SetUserName ''Ana'', ConfirmName, StartRecording, CreateResolved 0 (Created ''s1''),
                 MicResolved 0 MicGranted, WsOpen 1, EndSession, ContextSettled 2,
                 SummaryResolved SummaryNotOk] initial)
     = [Fetch (CreateSession \<lparr>body_context = ''General conversation'',
                              body_goal = ''Have a great conversation'', body_user_name = ''Ana'',
                              body_participants = [], body_tone = []\<rparr>),
        ConsoleLog ''Session created:'', GetUserMedia, NewWebSocket 1, NewAudioContext 2,
        ConsoleLog ''WebSocket connected'',
        Disconnect 3, ContextClose 2, TracksStop 0, Send 1 stop_message, Close 1,
        Fetch (FinishSession ''s1'')]
   \<and> appState (run [SetUserName ''Ana'', ConfirmName, StartRecording, CreateResolved 0 (Created ''s1''),
                 MicResolved 0 MicGranted, WsOpen 1, EndSession, ContextSettled 2,
                 SummaryResolved SummaryNotOk] initial) = contextMenu
   \<and> effects (run [SetUserName ''Ana'', ConfirmName, StartRecording, CreateResolved 0 (Created ''s1''),
                 MicResolved 0 MicGranted, WsOpen 1, EndSession, ContextSettled 2,
                 SummaryResolved (SummaryFetchRejected (Exn ''TypeError'' ''Failed to fetch''))] initial)
     = [Fetch (CreateSession \<lparr>body_context = ''General conversation'',
                              body_goal = ''Have a great conversation'', body_user_name = ''Ana'',
                              body_participants = [], body_tone = []\<rparr>),
        ConsoleLog ''Session created:'', GetUserMedia, NewWebSocket 1, NewAudioContext 2,
        ConsoleLog ''WebSocket connected'',
        Disconnect 3, ContextClose 2, TracksStop 0, Send 1 stop_message, Close 1,
        Fetch (FinishSession ''s1''),
        ConsoleError ''Error getting session summary:'',
        Toast ''Error'' ''Failed to get session summary'']"
proof (intro conjI)
  show "effects (end_summary SummaryNotOk s) = effects s"
    by (simp add: end_summary_def end_clear_def Let_def)
  show "showFeedback (end_summary SummaryNotOk s) = showFeedback s"
    by (simp add: end_summary_def end_clear_def Let_def)
  show "sessionSummary (end_summary SummaryNotOk s) = sessionSummary s"
    by (simp add: end_summary_def end_clear_def Let_def)
  show "appState (end_summary SummaryNotOk s) = contextMenu" by (simp add: end_summary_fields)
  show "\<not> isEndingSession (end_summary SummaryNotOk s)" by (simp add: end_summary_fields)
  show "transcriptEntries (end_summary SummaryNotOk s) = []" by (simp add: end_summary_fields)
  show "suggestions (end_summary SummaryNotOk s) = []" by (simp add: end_summary_fields)
  show "sessionIdRef (end_summary SummaryNotOk s) = None" by (simp add: end_summary_fields)
  show "effects (end_summary (SummaryFetchRejected e) s) =
       effects s @ [ConsoleError ''Error getting session summary:'',
                    Toast ''Error'' ''Failed to get session summary'']"
    by (simp add: end_summary_def end_clear_def emit_def Let_def)
  show "effects (end_summary (SummaryJsonRejected e) s) =
       effects s @ [ConsoleError ''Error getting session summary:'',
                    Toast ''Error'' ''Failed to get session summary'']"
    by (simp add: end_summary_def end_clear_def emit_def Let_def)
  show "appState (end_summary (SummaryFetchRejected e) s) = contextMenu"
    by (simp add: end_summary_fields)
qed (simp_all add: eval_defs)

section \<open>The transcript\<close>

lemma onmessage_transcript:
  "transcriptEntries (state_of (onmessage d s)) = transcriptEntries s @ entries_of [d]"
proof (cases d)
  case Unparseable
  then show ?thesis by (simp add: onmessage_def)
next
  case (Parsed m)
  then show ?thesis
    by (cases "get_prop m ''type''")
       (simp_all add: onmessage_def is_type_def entry_of_def emit_def Let_def)
qed

lemma entries_of_Cons: "entries_of (d # ds) = entries_of [d] @ entries_of ds"
  by (cases d) simp_all

lemma stays_recording_now: "stays_recording evs s \<Longrightarrow> appState s = recording"
  by (cases evs) simp_all

lemma received_other:
  "\<not> (\<exists>w d. e = WsMessage w d \<and> readyState (sockets s w) = OPEN) \<Longrightarrow>
     received (e # es) s = received es (step e s)"
  by (cases e) simp_all

lemma run_transcript:
  "stays_recording evs s \<Longrightarrow>
     transcriptEntries (run evs s) = transcriptEntries s @ entries_of (received evs s)"
proof (induction evs arbitrary: s)
  case Nil
  then show ?case by simp
next
  case (Cons e es)
  then have rec: "appState s = recording" and rest: "stays_recording es (step e s)" by simp_all
  have rec': "appState (step e s) = recording" using rest by (rule stays_recording_now)
  have ih: "transcriptEntries (run es (step e s)) =
      transcriptEntries (step e s) @ entries_of (received es (step e s))"
    using rest by (rule Cons.IH)
  show ?case
  proof (cases "\<exists>w d. e = WsMessage w d \<and> readyState (sockets s w) = OPEN")
    case True
    then obtain w d where e: "e = WsMessage w d" and op: "readyState (sockets s w) = OPEN" by blast
    have "transcriptEntries (step e s) = transcriptEntries s @ entries_of [d]"
      using e op by (simp add: onmessage_transcript)
    moreover have "received (e # es) s = d # received es (step e s)" using e op by simp
    ultimately show ?thesis using ih entries_of_Cons [of d "received es (step e s)"] by simp
  next
    case False
    then have "feeds_kept s (step e s) \<or> feeds_cleared (step e s)" using step_feeds [of e s] by blast
    then have "transcriptEntries (step e s) = transcriptEntries s"
      using rec' by (auto simp: feeds_kept_def feeds_cleared_def)
    then show ?thesis using ih received_other [OF False] by simp
  qed
qed

lemma step_transcript:
  "prefix (transcriptEntries s) (transcriptEntries (step e s)) \<or> feeds_cleared (step e s)"
proof -
  consider (msg) w d where "e = WsMessage w d" "readyState (sockets s w) = OPEN"
    | (kept) "feeds_kept s (step e s)" | (cleared) "feeds_cleared (step e s)"
    using step_feeds [of e s] by blast
  then show ?thesis
  proof cases
    case msg then show ?thesis by (simp add: onmessage_transcript)
  next
    case kept then show ?thesis by (simp add: feeds_kept_def)
  next
    case cleared then show ?thesis by simp
  qed
qed

text \<open>
  What holds of the transcript whatever else goes on. It only grows at its end, by the
  entry of each message handed to the handler that parses and is typed \<^verbatim>\<open>transcript\<close>,
  whichever socket brought it and whichever screen is up. From any state and for as
  long as the recording screen stays up, it is what it was followed by the entries of
  those messages, in the order they came. One step either leaves what is there as the
  front of the new transcript, or empties it, and then the session has ended (the
  screen is the context menu and the session id is gone). No piece of a start touches
  it: a session begins with whatever is there.
\<close>

lemma transcript_appended:
  "(stays_recording evs s \<longrightarrow>
      transcriptEntries (run evs s) = transcriptEntries s @ entries_of (received evs s)
      \<and> length (transcriptEntries (run evs s)) =
          length (transcriptEntries s) + length (entries_of (received evs s)))
   \<and> (prefix (transcriptEntries s) (transcriptEntries (step e s))
        \<or> (transcriptEntries (step e s) = [] \<and> appState (step e s) = contextMenu \<and>
            sessionIdRef (step e s) = None))
   \<and> transcriptEntries (step StartRecording s) = transcriptEntries s
   \<and> transcriptEntries (step (CreateResolved k cr) s) = transcriptEntries s
   \<and> transcriptEntries (step (MicResolved k mic) s) = transcriptEntries s
   \<and> transcriptEntries initial = []"
proof (intro conjI impI)
  assume sr: "stays_recording evs s"
  show eq: "transcriptEntries (run evs s) = transcriptEntries s @ entries_of (received evs s)"
    by (rule run_transcript [OF sr])
  show "length (transcriptEntries (run evs s)) =
          length (transcriptEntries s) + length (entries_of (received evs s))"
    unfolding eq by simp
next
  show "prefix (transcriptEntries s) (transcriptEntries (step e s))
        \<or> (transcriptEntries (step e s) = [] \<and> appState (step e s) = contextMenu \<and>
            sessionIdRef (step e s) = None)"
    using step_transcript [of s e] by (auto simp: feeds_cleared_def)
next
  show "transcriptEntries (step StartRecording s) = transcriptEntries s"
    by (simp add: start_begin_def emit_def)
next
  show "transcriptEntries (step (CreateResolved k cr) s) = transcriptEntries s"
    using start_created_feeds [of s k _ cr] by (cases "calls s k") (simp_all add: feeds_kept_def)
next
  show "transcriptEntries (step (MicResolved k mic) s) = transcriptEntries s"
    using start_granted_feeds [of s k _ _ mic] by (cases "calls s k") (simp_all add: feeds_kept_def)
next
  show "transcriptEntries initial = []" by (simp add: initial_def)
qed

text \<open>
  C8 fails in the code. A start can be begun while another is under way: the loading
  dialog can be dismissed and the button pressed again. When both calls have run, the
  socket the first one opened is in no ref, and ending the session leaves it open. A
  transcript message on it at the context menu enters the transcript, and the next
  session begins with one entry, having received no message.
\<close>

theorem transcript_not_per_session:
  "appState (run [SetUserName ''Ana'', ConfirmName,
              StartRecording, DismissLoading, StartRecording,
              CreateResolved 0 (Created ''s1''), MicResolved 0 MicGranted,
              CreateResolved 1 (Created ''s2''), MicResolved 1 MicGranted,
              WsOpen 1, WsOpen 5,
              EndSession, ContextSettled 6,
              SummaryResolved (SummaryOk \<lparr>stars = [], wish = [], filler_percentage = 0,
                                            takeaways = [], summary_bullets = []\<rparr>),
              DismissFeedback] initial) = contextMenu
   \<and> transcriptEntries (run [SetUserName ''Ana'', ConfirmName,
              StartRecording, DismissLoading, StartRecording,
              CreateResolved 0 (Created ''s1''), MicResolved 0 MicGranted,
              CreateResolved 1 (Created ''s2''), MicResolved 1 MicGranted,
              WsOpen 1, WsOpen 5,
              EndSession, ContextSettled 6,
              SummaryResolved (SummaryOk \<lparr>stars = [], wish = [], filler_percentage = 0,
                                            takeaways = [], summary_bullets = []\<rparr>),
              DismissFeedback] initial) = []
   \<and> readyState (sockets (run [SetUserName ''Ana'', ConfirmName,
              StartRecording, DismissLoading, StartRecording,
              CreateResolved 0 (Created ''s1''), MicResolved 0 MicGranted,
              CreateResolved 1 (Created ''s2''), MicResolved 1 MicGranted,
              WsOpen 1, WsOpen 5,
              EndSession, ContextSettled 6,
              SummaryResolved (SummaryOk \<lparr>stars = [], wish = [], filler_percentage = 0,
                                            takeaways = [], summary_bullets = []\<rparr>),
              DismissFeedback] initial) 1) = OPEN
   \<and> wsRef (run [SetUserName ''Ana'', ConfirmName,
              StartRecording, DismissLoading, StartRecording,
              CreateResolved 0 (Created ''s1''), MicResolved 0 MicGranted,
              CreateResolved 1 (Created ''s2''), MicResolved 1 MicGranted,
              WsOpen 1, WsOpen 5,
              EndSession, ContextSettled 6,
              SummaryResolved (SummaryOk \<lparr>stars = [], wish = [], filler_percentage = 0,
                                            takeaways = [], summary_bullets = []\<rparr>),
              DismissFeedback] initial) = None
   \<and> received [StartRecording, CreateResolved 2 (Created ''s3''), MicResolved 2 MicGranted]
        (run [SetUserName ''Ana'', ConfirmName,
              StartRecording, DismissLoading, StartRecording,
              CreateResolved 0 (Created ''s1''), MicResolved 0 MicGranted,
              CreateResolved 1 (Created ''s2''), MicResolved 1 MicGranted,
              WsOpen 1, WsOpen 5,
              EndSession, ContextSettled 6,
              SummaryResolved (SummaryOk \<lparr>stars = [], wish = [], filler_percentage = 0,
                                            takeaways = [], summary_bullets = []\<rparr>),
              DismissFeedback,
              WsMessage 1 (Parsed (JObject [(''type'', JString ''transcript''),
                                            (''text'', JString ''late'')]))] initial) = []
   \<and> appState (run [SetUserName ''Ana'', ConfirmName,
              StartRecording, DismissLoading, StartRecording,
              CreateResolved 0 (Created ''s1''), MicResolved 0 MicGranted,
              CreateResolved 1 (Created ''s2''), MicResolved 1 MicGranted,
              WsOpen 1, WsOpen 5,
              EndSession, ContextSettled 6,
              SummaryResolved (SummaryOk \<lparr>stars = [], wish = [], filler_percentage = 0,
                                            takeaways = [], summary_bullets = []\<rparr>),
              DismissFeedback,
              WsMessage 1 (Parsed (JObject [(''type'', JString ''transcript''),
                                            (''text'', JString ''late'')])),
              StartRecording, CreateResolved 2 (Created ''s3''), MicResolved 2 MicGranted] initial)
       = recording
   \<and> sessionIdRef (run [SetUserName ''Ana'', ConfirmName,
              StartRecording, DismissLoading, StartRecording,
              CreateResolved 0 (Created ''s1''), MicResolved 0 MicGranted,
              CreateResolved 1 (Created ''s2''), MicResolved 1 MicGranted,
              WsOpen 1, WsOpen 5,
              EndSession, ContextSettled 6,
              SummaryResolved (SummaryOk \<lparr>stars = [], wish = [], filler_percentage = 0,
                                            takeaways = [], summary_bullets = []\<rparr>),
              DismissFeedback,
              WsMessage 1 (Parsed (JObject [(''type'', JString ''transcript''),
                                            (''text'', JString ''late'')])),
              StartRecording, CreateResolved 2 (Created ''s3''), MicResolved 2 MicGranted] initial)
       = Some ''s3''
   \<and> transcriptEntries (run [SetUserName ''Ana'', ConfirmName,
              StartRecording, DismissLoading, StartRecording,
              CreateResolved 0 (Created ''s1''), MicResolved 0 MicGranted,
              CreateResolved 1 (Created ''s2''), MicResolved 1 MicGranted,
              WsOpen 1, WsOpen 5,
              EndSession, ContextSettled 6,
              SummaryResolved (SummaryOk \<lparr>stars = [], wish = [], filler_percentage = 0,
                                            takeaways = [], summary_bullets = []\<rparr>),
              DismissFeedback,
              WsMessage 1 (Parsed (JObject [(''type'', JString ''transcript''),
                                            (''text'', JString ''late'')])),
              StartRecording, CreateResolved 2 (Created ''s3''), MicResolved 2 MicGranted] initial)
       = [\<lparr>speaker = None, entry_text = Some (JString ''late''), entry_timestamp = None\<rparr>]"
  by (simp add: eval_defs)

section \<open>The creation request\<close>

text \<open>
  C9, as the code has it. The creation request is the first call a start makes, and its
  body is made of the fields as they are at the click: the user name as it is; the
  context and the goal, each replaced by its default text when empty; the participants
  and the tone as they are, so empty when left empty.
\<close>

theorem creation_request_body:
  "effects (step StartRecording s) =
     (if appState s = contextMenu then effects s @ [Fetch (CreateSession (create_request s))]
      else effects s)
   \<and> body_user_name (create_request s) = userName s
   \<and> body_context (create_request s) =
       (if eventDetails s = [] then ''General conversation'' else eventDetails s)
   \<and> body_goal (create_request s) =
       (if goals s = [] then ''Have a great conversation'' else goals s)
   \<and> body_participants (create_request s) = participants s
   \<and> body_tone (create_request s) = tone s"
  by (simp add: start_begin_def emit_def create_request_def or_else_def)

text \<open>
  The claim as written fails: started with the name \<^verbatim>\<open>Ana\<close> and every other field left
  empty, the request carries the two defaults and an empty string for the participants
  and for the tone.
\<close>

theorem empty_fields_sent_empty:
  "effects (run [SetUserName ''Ana'', ConfirmName, StartRecording] initial)
     = [Fetch (CreateSession \<lparr>body_context = ''General conversation'',
                              body_goal = ''Have a great conversation'', body_user_name = ''Ana'',
                              body_participants = [], body_tone = []\<rparr>)]
   \<and> participants (run [SetUserName ''Ana'', ConfirmName] initial) = []
   \<and> tone (run [SetUserName ''Ana'', ConfirmName] initial) = []"
  by (simp add: eval_defs)

section \<open>The pause flag the callback sees\<close>















end
